theory Spec2Isabelle
  imports Complex_Main "HOL-Library.Word" "HOL-Library.AList"
begin

unbundle bit_operations_syntax

section \<open>Allocation ledger (class StorageAllocation)\<close>

text \<open>
  The ledger of \<^verbatim>\<open>StorageAllocation\<close>. Byte counts and millisecond clocks are JavaScript
  numbers holding integers; they are modelled as \<open>int\<close>. The per-peer table is a JavaScript
  \<^verbatim>\<open>Map\<close>, kept here as an association list in insertion order with distinct keys.
  \<^verbatim>\<open>Date.now()\<close> is the argument \<open>now\<close> of each operation. Writing the snapshot to disk
  (\<^verbatim>\<open>saveAllocation\<close>) and console output do not change the ledger and are left out.
\<close>

record backup_ref =
  backup_id :: string
  backup_size :: int
  backup_timestamp :: int

record peer_allocation =
  offered :: int
  used :: int
  backups :: "backup_ref list"
  alloc_timestamp :: "int option"

record allocation =
  maxStorageOffered :: int
  storageOffered :: int
  storageUsed :: int
  ratio :: string
  allocations :: "(string \<times> peer_allocation) list"

definition initial_allocation :: allocation where
  "initial_allocation =
     \<lparr>maxStorageOffered = 0, storageOffered = 0, storageUsed = 0, ratio = ''1:1'',
      allocations = []\<rparr>"

definition setMaxStorage :: "int \<Rightarrow> allocation \<Rightarrow> allocation" where
  "setMaxStorage bytes s = s\<lparr>maxStorageOffered := bytes\<rparr>"

definition getAllocatedToPeer :: "allocation \<Rightarrow> string \<Rightarrow> int" where
  "getAllocatedToPeer s peerId =
     (case map_of (allocations s) peerId of Some a \<Rightarrow> offered a | None \<Rightarrow> 0)"

definition getUsedFromPeer :: "allocation \<Rightarrow> string \<Rightarrow> int" where
  "getUsedFromPeer s peerId =
     (case map_of (allocations s) peerId of Some a \<Rightarrow> used a | None \<Rightarrow> 0)"

text \<open>
  The object returned by \<^verbatim>\<open>canAcceptBackup\<close>. Its display-only members (the formatted
  ratio and the formatted sizes) decide nothing; the sizes are kept as the numbers they
  are formatted from.
\<close>

record accept_result =
  canAccept :: bool
  reason :: "string option"
  requiredOffering :: "int option"
  maxOffered :: "int option"
  currentOffered :: "int option"

definition ratio_reason :: string where
  "ratio_reason = ''Insufficient allocation - violates 1:1 ratio''"

definition capacity_reason :: string where
  "capacity_reason = ''Maximum storage capacity reached''"

definition canAcceptBackup :: "allocation \<Rightarrow> int \<Rightarrow> string \<Rightarrow> accept_result" where
  "canAcceptBackup s requestedBytes fromPeerId =
     (let currentUsed = storageUsed s;
          currentOffered' = storageOffered s;
          maxOffered' = maxStorageOffered s
      in if currentUsed + requestedBytes > currentOffered' + getAllocatedToPeer s fromPeerId
         then \<lparr>canAccept = False, reason = Some ratio_reason,
               requiredOffering = Some (currentUsed + requestedBytes),
               maxOffered = None, currentOffered = None\<rparr>
         else if currentOffered' \<ge> maxOffered'
         then \<lparr>canAccept = False, reason = Some capacity_reason,
               requiredOffering = None,
               maxOffered = Some maxOffered', currentOffered = Some currentOffered'\<rparr>
         else \<lparr>canAccept = True, reason = None, requiredOffering = None,
               maxOffered = None, currentOffered = None\<rparr>)"

definition default_peer_allocation :: peer_allocation where
  "default_peer_allocation = \<lparr>offered = 0, used = 0, backups = [], alloc_timestamp = None\<rparr>"

definition get_or_default :: "allocation \<Rightarrow> string \<Rightarrow> peer_allocation" where
  "get_or_default s peerId =
     (case map_of (allocations s) peerId of Some a \<Rightarrow> a | None \<Rightarrow> default_peer_allocation)"

definition allocateStorageToPeer ::
  "int \<Rightarrow> string \<Rightarrow> int \<Rightarrow> string \<Rightarrow> allocation \<Rightarrow> allocation" where
  "allocateStorageToPeer now peerId bytes backupId s =
     (let existing = get_or_default s peerId;
          existing' = existing\<lparr>offered := offered existing + bytes,
                                used := used existing + bytes,
                                backups := backups existing @
                                  [\<lparr>backup_id = backupId, backup_size = bytes,
                                    backup_timestamp = now\<rparr>],
                                alloc_timestamp := Some now\<rparr>
      in s\<lparr>allocations := AList.update peerId existing' (allocations s),
            storageOffered := storageOffered s + bytes\<rparr>)"

definition recordStorageUsed ::
  "int \<Rightarrow> string \<Rightarrow> int \<Rightarrow> string \<Rightarrow> allocation \<Rightarrow> allocation" where
  "recordStorageUsed now peerId bytes backupId s =
     (let existing = get_or_default s peerId;
          existing' = existing\<lparr>used := used existing + bytes, alloc_timestamp := Some now\<rparr>
      in s\<lparr>allocations := AList.update peerId existing' (allocations s),
            storageUsed := storageUsed s + bytes\<rparr>)"

definition releaseAllocation ::
  "int \<Rightarrow> string \<Rightarrow> int \<Rightarrow> bool \<Rightarrow> allocation \<Rightarrow> allocation" where
  "releaseAllocation now peerId bytes isOffered s =
     (case map_of (allocations s) peerId of
        None \<Rightarrow> s
      | Some existing \<Rightarrow>
          (let existing1 =
                 (if isOffered then existing\<lparr>offered := max 0 (offered existing - bytes)\<rparr>
                  else existing\<lparr>used := max 0 (used existing - bytes)\<rparr>);
               s1 = (if isOffered
                     then s\<lparr>storageOffered := max 0 (storageOffered s - bytes)\<rparr>
                     else s\<lparr>storageUsed := max 0 (storageUsed s - bytes)\<rparr>);
               existing2 = existing1\<lparr>alloc_timestamp := Some now\<rparr>
           in if offered existing2 = 0 \<and> used existing2 = 0
              then s1\<lparr>allocations := AList.delete peerId (allocations s1)\<rparr>
              else s1\<lparr>allocations := AList.update peerId existing2 (allocations s1)\<rparr>))"

text \<open>
  \<^verbatim>\<open>validateAllocation\<close> returns the list of issues; the texts of the issues embed
  formatted sizes, so each issue is kept as its kind.
\<close>

datatype issue = OfferedMismatch int int | UsedMismatch int int | RatioViolation int int

definition sumOffered :: "allocation \<Rightarrow> int" where
  "sumOffered s = sum_list (map (\<lambda>(k, a). offered a) (allocations s))"

definition sumUsed :: "allocation \<Rightarrow> int" where
  "sumUsed s = sum_list (map (\<lambda>(k, a). used a) (allocations s))"

definition validate_issues :: "allocation \<Rightarrow> issue list" where
  "validate_issues s =
     (if sumOffered s \<noteq> storageOffered s
      then [OfferedMismatch (sumOffered s) (storageOffered s)] else []) @
     (if sumUsed s \<noteq> storageUsed s
      then [UsedMismatch (sumUsed s) (storageUsed s)] else []) @
     (if storageUsed s > storageOffered s
      then [RatioViolation (storageUsed s) (storageOffered s)] else [])"

definition validateAllocation :: "allocation \<Rightarrow> bool \<times> issue list" where
  "validateAllocation s = (validate_issues s = [], validate_issues s)"

text \<open>The three ledger operations of the claims, and a run of them from a ledger.\<close>

datatype ledger_op =
    Allocate int string int string
  | RecordUsed int string int string
  | Release int string int bool

fun apply_ledger_op :: "ledger_op \<Rightarrow> allocation \<Rightarrow> allocation" where
  "apply_ledger_op (Allocate now p b bid) s = allocateStorageToPeer now p b bid s"
| "apply_ledger_op (RecordUsed now p b bid) s = recordStorageUsed now p b bid s"
| "apply_ledger_op (Release now p b isOff) s = releaseAllocation now p b isOff s"

fun run_ledger :: "ledger_op list \<Rightarrow> allocation \<Rightarrow> allocation" where
  "run_ledger [] s = s"
| "run_ledger (x # xs) s = run_ledger xs (apply_ledger_op x s)"

text \<open>
  Well-formed operation sequences: byte counts are not negative and a release gives back
  no more than the ledger records for that peer on the released side. The invariant of
  the offered side: distinct keys, no negative entry, and the per-peer sum of offered
  equal to the global total.
\<close>


fun is_allocate :: "ledger_op \<Rightarrow> bool" where
  "is_allocate (Allocate _ _ _ _) = True"
| "is_allocate _ = False"

fun op_ok :: "ledger_op \<Rightarrow> allocation \<Rightarrow> bool" where
  "op_ok (Allocate now p b bid) s = (0 \<le> b)"
| "op_ok (RecordUsed now p b bid) s = (0 \<le> b)"
| "op_ok (Release now p b isOff) s =
     (0 \<le> b \<and> b \<le> (if isOff then getAllocatedToPeer s p else getUsedFromPeer s p))"

fun ops_ok :: "ledger_op list \<Rightarrow> allocation \<Rightarrow> bool" where
  "ops_ok [] s = True"
| "ops_ok (x # xs) s = (op_ok x s \<and> ops_ok xs (apply_ledger_op x s))"

definition entries_nonneg :: "(string \<times> peer_allocation) list \<Rightarrow> bool" where
  "entries_nonneg al = list_all (\<lambda>(k, a). 0 \<le> offered a \<and> 0 \<le> used a) al"

definition ledger_inv :: "allocation \<Rightarrow> bool" where
  "ledger_inv s \<longleftrightarrow> distinct (map fst (allocations s)) \<and> entries_nonneg (allocations s)
      \<and> sumOffered s = storageOffered s"

definition demo_ops :: "ledger_op list" where
  "demo_ops = [RecordUsed 1 ''peerA'' 100 ''b1'', RecordUsed 2 ''peerB'' 50 ''b2'',
               Release 3 ''peerA'' 100 False]"

definition traded_ledger :: allocation where
  "traded_ledger =
     run_ledger [Allocate 1 ''peerA'' 10 ''b1'', RecordUsed 2 ''peerB'' 15 ''b2'']
       (setMaxStorage 100 initial_allocation)"

section \<open>Reputation engine (class ReputationSystem)\<close>

text \<open>
  Scores and response times are JavaScript numbers; they are modelled as exact \<open>real\<close>s, so
  rounding of the double-precision arithmetic is outside this model. Counters only ever
  grow by counts and are \<open>nat\<close>. The peer table is the \<^verbatim>\<open>Map\<close> \<^verbatim>\<open>this.peers\<close>, a partial
  function from peer ids; \<^verbatim>\<open>Date.now()\<close> is the argument \<open>now\<close>. Emitted events, console
  output and the write of the table to disk do not change the table and are left out.
\<close>

record uptime_check =
  check_timestamp :: int
  available :: bool

record reputation =
  peerId :: string
  firstSeen :: int
  lastSeen :: int
  totalConnections :: nat
  successfulConnections :: nat
  failedConnections :: nat
  averageResponseTime :: real
  totalChallenges :: nat
  successfulChallenges :: nat
  failedChallenges :: nat
  averageVerificationTime :: real
  dataIntegrityScore :: real
  corruptedFiles :: nat
  totalFilesTransferred :: nat
  uptimeScore :: real
  uptimeHistory :: "uptime_check list"
  overallScore :: real
  trustLevel :: string
  isBlacklisted :: bool
  blacklistReason :: "string option"
  rep_publicKey :: "string option"
  lastCommitment :: "string option"
  rep_notes :: "string list"

text \<open>
  The argument of \<^verbatim>\<open>migrateReputationData\<close> is a parsed JSON object in which any member may
  be absent. \<^verbatim>\<open>x || d\<close> yields \<open>d\<close> when \<open>x\<close> is absent or falsy: zero for a number, the
  empty string for a string, \<^verbatim>\<open>false\<close> for a boolean; an array is never falsy.
\<close>

record raw_reputation =
  raw_peerId :: string
  raw_firstSeen :: "int option"
  raw_lastSeen :: "int option"
  raw_totalConnections :: "nat option"
  raw_successfulConnections :: "nat option"
  raw_failedConnections :: "nat option"
  raw_averageResponseTime :: "real option"
  raw_totalChallenges :: "nat option"
  raw_successfulChallenges :: "nat option"
  raw_failedChallenges :: "nat option"
  raw_averageVerificationTime :: "real option"
  raw_dataIntegrityScore :: "real option"
  raw_corruptedFiles :: "nat option"
  raw_totalFilesTransferred :: "nat option"
  raw_uptimeScore :: "real option"
  raw_uptimeHistory :: "uptime_check list option"
  raw_overallScore :: "real option"
  raw_trustLevel :: "string option"
  raw_isBlacklisted :: "bool option"
  raw_blacklistReason :: "string option"
  raw_publicKey :: "string option"
  raw_lastCommitment :: "string option"
  raw_notes :: "string list option"

definition num_or :: "'a::zero option \<Rightarrow> 'a \<Rightarrow> 'a" where
  "num_or x d = (case x of None \<Rightarrow> d | Some v \<Rightarrow> if v = 0 then d else v)"

definition str_or :: "string option \<Rightarrow> string \<Rightarrow> string" where
  "str_or x d = (case x of None \<Rightarrow> d | Some v \<Rightarrow> if v = [] then d else v)"

definition str_or_null :: "string option \<Rightarrow> string option" where
  "str_or_null x = (case x of None \<Rightarrow> None | Some v \<Rightarrow> if v = [] then None else Some v)"

definition migrateReputationData :: "int \<Rightarrow> raw_reputation \<Rightarrow> reputation" where
  "migrateReputationData now raw =
     \<lparr>peerId = raw_peerId raw,
      firstSeen = num_or (raw_firstSeen raw) now,
      lastSeen = num_or (raw_lastSeen raw) now,
      totalConnections = num_or (raw_totalConnections raw) 0,
      successfulConnections = num_or (raw_successfulConnections raw) 0,
      failedConnections = num_or (raw_failedConnections raw) 0,
      averageResponseTime = num_or (raw_averageResponseTime raw) 0,
      totalChallenges = num_or (raw_totalChallenges raw) 0,
      successfulChallenges = num_or (raw_successfulChallenges raw) 0,
      failedChallenges = num_or (raw_failedChallenges raw) 0,
      averageVerificationTime = num_or (raw_averageVerificationTime raw) 0,
      dataIntegrityScore = num_or (raw_dataIntegrityScore raw) 1,
      corruptedFiles = num_or (raw_corruptedFiles raw) 0,
      totalFilesTransferred = num_or (raw_totalFilesTransferred raw) 0,
      uptimeScore = num_or (raw_uptimeScore raw) 1,
      uptimeHistory = (case raw_uptimeHistory raw of None \<Rightarrow> [] | Some h \<Rightarrow> h),
      overallScore = num_or (raw_overallScore raw) (1 / 2),
      trustLevel = str_or (raw_trustLevel raw) ''unknown'',
      isBlacklisted = (case raw_isBlacklisted raw of None \<Rightarrow> False | Some b \<Rightarrow> b),
      blacklistReason = str_or_null (raw_blacklistReason raw),
      rep_publicKey = str_or_null (raw_publicKey raw),
      lastCommitment = str_or_null (raw_lastCommitment raw),
      rep_notes = (case raw_notes raw of None \<Rightarrow> [] | Some n \<Rightarrow> n)\<rparr>"

definition new_raw_reputation :: "int \<Rightarrow> string \<Rightarrow> raw_reputation" where
  "new_raw_reputation now p =
     \<lparr>raw_peerId = p, raw_firstSeen = Some now, raw_lastSeen = Some now,
      raw_totalConnections = None, raw_successfulConnections = None,
      raw_failedConnections = None, raw_averageResponseTime = None,
      raw_totalChallenges = None, raw_successfulChallenges = None,
      raw_failedChallenges = None, raw_averageVerificationTime = None,
      raw_dataIntegrityScore = None, raw_corruptedFiles = None,
      raw_totalFilesTransferred = None, raw_uptimeScore = None, raw_uptimeHistory = None,
      raw_overallScore = None, raw_trustLevel = None, raw_isBlacklisted = None,
      raw_blacklistReason = None, raw_publicKey = None, raw_lastCommitment = None,
      raw_notes = None\<rparr>"

type_synonym peers = "string \<rightharpoonup> reputation"

text \<open>
  \<^verbatim>\<open>getPeerReputation\<close> returns the stored object, which its callers then mutate in place.
  Here it returns the record together with the table that now holds it, and each caller
  stores its changed copy back under the same key.
\<close>

definition getPeerReputation :: "int \<Rightarrow> string \<Rightarrow> peers \<Rightarrow> reputation \<times> peers" where
  "getPeerReputation now p s =
     (case s p of
        None \<Rightarrow> (let r = migrateReputationData now (new_raw_reputation now p)
                 in (r, s(p \<mapsto> r)))
      | Some r \<Rightarrow> (r, s))"

definition weight_uptime :: real where "weight_uptime = 3 / 10"
definition weight_responseTime :: real where "weight_responseTime = 2 / 10"
definition weight_verificationSuccess :: real where "weight_verificationSuccess = 3 / 10"
definition weight_dataIntegrity :: real where "weight_dataIntegrity = 2 / 10"

definition threshold_trusted :: real where "threshold_trusted = 8 / 10"
definition threshold_acceptable :: real where "threshold_acceptable = 6 / 10"
definition threshold_suspicious :: real where "threshold_suspicious = 4 / 10"
definition threshold_blacklisted :: real where "threshold_blacklisted = 2 / 10"

definition calculateResponseTimeScore :: "real \<Rightarrow> real" where
  "calculateResponseTimeScore avgResponseTime =
     (if avgResponseTime = 0 then 1 / 2
      else min 1 (max 0 (1 - avgResponseTime / 30000)))"

definition getTrustLevel :: "real \<Rightarrow> string" where
  "getTrustLevel score =
     (if score \<ge> threshold_trusted then ''trusted''
      else if score \<ge> threshold_acceptable then ''acceptable''
      else if score \<ge> threshold_suspicious then ''suspicious''
      else ''untrusted'')"

definition blacklistPeer :: "int \<Rightarrow> string \<Rightarrow> string \<Rightarrow> peers \<Rightarrow> peers" where
  "blacklistPeer now p why s =
     (let (r, s1) = getPeerReputation now p s
      in s1(p \<mapsto> r\<lparr>isBlacklisted := True, blacklistReason := Some why,
                     overallScore := 0, trustLevel := ''blacklisted''\<rparr>))"

definition connectionScore :: "reputation \<Rightarrow> real" where
  "connectionScore r =
     (if totalConnections r > 0
      then real (successfulConnections r) / real (totalConnections r) else 1 / 2)"

definition verificationScore :: "reputation \<Rightarrow> real" where
  "verificationScore r =
     (if totalChallenges r > 0
      then real (successfulChallenges r) / real (totalChallenges r) else 1 / 2)"

definition weighted_score :: "reputation \<Rightarrow> real" where
  "weighted_score r =
     connectionScore r * weight_uptime
     + calculateResponseTimeScore (averageResponseTime r) * weight_responseTime
     + verificationScore r * weight_verificationSuccess
     + dataIntegrityScore r * weight_dataIntegrity"

definition auto_blacklist_reason :: string where
  "auto_blacklist_reason = ''Automatic blacklist due to low reputation''"

definition updateOverallScore :: "int \<Rightarrow> string \<Rightarrow> peers \<Rightarrow> peers" where
  "updateOverallScore now p s =
     (let (r, s1) = getPeerReputation now p s;
          r1 = r\<lparr>overallScore := weighted_score r\<rparr>;
          r2 = r1\<lparr>trustLevel := getTrustLevel (overallScore r1)\<rparr>;
          s2 = s1(p \<mapsto> r2)
      in if overallScore r2 < threshold_blacklisted \<and> \<not> isBlacklisted r2
         then blacklistPeer now p auto_blacklist_reason s2
         else s2)"

definition unblacklistPeer :: "int \<Rightarrow> string \<Rightarrow> peers \<Rightarrow> peers" where
  "unblacklistPeer now p s =
     (let (r, s1) = getPeerReputation now p s
      in updateOverallScore now p
           (s1(p \<mapsto> r\<lparr>isBlacklisted := False, blacklistReason := None\<rparr>)))"

definition recordConnection :: "int \<Rightarrow> string \<Rightarrow> real \<Rightarrow> bool \<Rightarrow> peers \<Rightarrow> peers" where
  "recordConnection now p responseTime success s =
     (let (r, s1) = getPeerReputation now p s;
          r1 = r\<lparr>lastSeen := now, totalConnections := totalConnections r + 1\<rparr>;
          r2 = (if success
                then (let r' = r1\<lparr>successfulConnections := successfulConnections r1 + 1\<rparr>
                      in if responseTime > 0
                         then r'\<lparr>averageResponseTime :=
                                  (averageResponseTime r' * (real (totalConnections r') - 1)
                                   + responseTime) / real (totalConnections r')\<rparr>
                         else r')
                else r1\<lparr>failedConnections := failedConnections r1 + 1\<rparr>)
      in updateOverallScore now p (s1(p \<mapsto> r2)))"

definition recordVerification :: "int \<Rightarrow> string \<Rightarrow> bool \<Rightarrow> real \<Rightarrow> peers \<Rightarrow> peers" where
  "recordVerification now p success responseTime s =
     (let (r, s1) = getPeerReputation now p s;
          r1 = r\<lparr>totalChallenges := totalChallenges r + 1\<rparr>;
          r2 = (if success
                then (let r' = r1\<lparr>successfulChallenges := successfulChallenges r1 + 1\<rparr>
                      in if responseTime > 0
                         then r'\<lparr>averageVerificationTime :=
                                  (averageVerificationTime r' * (real (totalChallenges r') - 1)
                                   + responseTime) / real (totalChallenges r')\<rparr>
                         else r')
                else r1\<lparr>failedChallenges := failedChallenges r1 + 1\<rparr>)
      in updateOverallScore now p (s1(p \<mapsto> r2)))"

definition recordFileTransfer ::
  "int \<Rightarrow> string \<Rightarrow> bool \<Rightarrow> nat \<Rightarrow> nat \<Rightarrow> peers \<Rightarrow> peers" where
  "recordFileTransfer now p success filesCount corruptedCount s =
     (let (r, s1) = getPeerReputation now p s;
          r1 = r\<lparr>totalFilesTransferred := totalFilesTransferred r + filesCount,
                 corruptedFiles := corruptedFiles r + corruptedCount\<rparr>;
          r2 = (if totalFilesTransferred r1 > 0
                then r1\<lparr>dataIntegrityScore :=
                         1 - real (corruptedFiles r1) / real (totalFilesTransferred r1)\<rparr>
                else r1)
      in updateOverallScore now p (s1(p \<mapsto> r2)))"

definition slice_last :: "nat \<Rightarrow> 'a list \<Rightarrow> 'a list" where
  "slice_last n xs = drop (length xs - n) xs"

definition recordUptime :: "int \<Rightarrow> string \<Rightarrow> bool \<Rightarrow> peers \<Rightarrow> peers" where
  "recordUptime now p wasAvailable s =
     (let (r, s1) = getPeerReputation now p s;
          h1 = (if length (uptimeHistory r) \<ge> 100 then tl (uptimeHistory r)
                else uptimeHistory r);
          h2 = h1 @ [\<lparr>check_timestamp = now, available = wasAvailable\<rparr>];
          recentChecks = slice_last 50 h2;
          upCount = length (filter available recentChecks);
          r1 = r\<lparr>uptimeHistory := h2,
                 uptimeScore := (if length recentChecks > 0
                                 then real upCount / real (length recentChecks) else 1)\<rparr>
      in updateOverallScore now p (s1(p \<mapsto> r1)))"

datatype acceptability = IsAcceptable | PeerIsBlacklisted | ReputationTooLow real real

definition isPeerAcceptable ::
  "int \<Rightarrow> string \<Rightarrow> real option \<Rightarrow> peers \<Rightarrow> acceptability \<times> peers" where
  "isPeerAcceptable now p minScore s =
     (let (r, s1) = getPeerReputation now p s
      in if isBlacklisted r then (PeerIsBlacklisted, s1)
         else (let threshold = num_or minScore threshold_acceptable
               in if overallScore r < threshold
                  then (ReputationTooLow (overallScore r) threshold, s1)
                  else (IsAcceptable, s1)))"

text \<open>The four recorded events, each with the clock reading at which it is recorded.\<close>

datatype rep_event =
    Connection int string real bool
  | Verification int string bool real
  | FileTransfer int string bool nat nat
  | Uptime int string bool

fun event_peer :: "rep_event \<Rightarrow> string" where
  "event_peer (Connection now p rt ok) = p"
| "event_peer (Verification now p ok rt) = p"
| "event_peer (FileTransfer now p ok n c) = p"
| "event_peer (Uptime now p up) = p"

fun record_event :: "rep_event \<Rightarrow> peers \<Rightarrow> peers" where
  "record_event (Connection now p rt ok) s = recordConnection now p rt ok s"
| "record_event (Verification now p ok rt) s = recordVerification now p ok rt s"
| "record_event (FileTransfer now p ok n c) s = recordFileTransfer now p ok n c s"
| "record_event (Uptime now p up) s = recordUptime now p up s"

fun record_events :: "rep_event list \<Rightarrow> peers \<Rightarrow> peers" where
  "record_events [] s = s"
| "record_events (e # es) s = record_events es (record_event e s)"







definition finalize :: "reputation \<Rightarrow> reputation" where
  "finalize r =
     (if weighted_score r < threshold_blacklisted \<and> \<not> isBlacklisted r
      then r\<lparr>overallScore := 0, trustLevel := ''blacklisted'', isBlacklisted := True,
              blacklistReason := Some auto_blacklist_reason\<rparr>
      else r\<lparr>overallScore := weighted_score r,
              trustLevel := getTrustLevel (weighted_score r)\<rparr>)"



section \<open>Crypto (class BackupCrypto)\<close>

text \<open>
  Buffers are lists of bytes. A member of a message parsed from JSON may be absent or of any
  JSON kind; such a member is a \<open>js_value\<close>. An object or array is kept as the string that
  JavaScript converts it to. Numbers are exact \<open>real\<close>s, doubles in the code.
\<close>

type_synonym byte = "8 word"
type_synonym bytes = "byte list"

datatype js_value =
    JS_undefined
  | JS_null
  | JS_bool bool
  | JS_number real
  | JS_string string
  | JS_object string

text \<open>
  The library primitives and language built-ins the code calls are arguments of the model:
  SHA-256, the Ed25519 detached-signature check (\<open>None\<close> when the binding throws, as it does
  on buffers it refuses) and the secret-box pair of libsodium, Node's base64 decoder, the
  \<^verbatim>\<open>JSON.stringify\<close> of the signed subset of a commitment, and the conversion of a string to
  a number (\<open>None\<close> for \<^verbatim>\<open>NaN\<close>). Nothing is assumed about them except where a theorem
  states it.
\<close>

record primitives =
  sha256 :: "bytes \<Rightarrow> bytes"
  crypto_sign_verify_detached :: "bytes \<Rightarrow> bytes \<Rightarrow> bytes \<Rightarrow> bool option"
  crypto_box_easy_afternm :: "bytes \<Rightarrow> bytes \<Rightarrow> bytes \<Rightarrow> bytes"
  crypto_box_open_easy_afternm :: "bytes \<Rightarrow> bytes \<Rightarrow> bytes \<Rightarrow> bytes option"
  from_base64 :: "string \<Rightarrow> bytes"
  stringify_commitment :: "string \<Rightarrow> js_value \<Rightarrow> js_value \<Rightarrow> js_value \<Rightarrow> bytes"
  string_to_number :: "string \<Rightarrow> real option"

text \<open>
  \<^verbatim>\<open>ToNumber\<close>, with \<open>None\<close> for \<^verbatim>\<open>NaN\<close>, and the comparison \<^verbatim>\<open><\<close> of two numbers, false with
  \<^verbatim>\<open>NaN\<close> on either side. Every comparison modelled below has a number on one side, so the
  other side is converted to a number whatever its kind.
\<close>

definition to_number :: "primitives \<Rightarrow> js_value \<Rightarrow> real option" where
  "to_number prim v =
     (case v of
        JS_undefined \<Rightarrow> None
      | JS_null \<Rightarrow> Some 0
      | JS_bool b \<Rightarrow> Some (if b then 1 else 0)
      | JS_number x \<Rightarrow> Some x
      | JS_string s \<Rightarrow> string_to_number prim s
      | JS_object s \<Rightarrow> string_to_number prim s)"

definition js_less :: "real option \<Rightarrow> real option \<Rightarrow> bool" where
  "js_less a b = (case (a, b) of (Some x, Some y) \<Rightarrow> x < y | _ \<Rightarrow> False)"

definition js_minus :: "real option \<Rightarrow> real option \<Rightarrow> real option" where
  "js_minus a b = (case (a, b) of (Some x, Some y) \<Rightarrow> Some (x - y) | _ \<Rightarrow> None)"

definition crypto_sign_PUBLICKEYBYTES :: nat where "crypto_sign_PUBLICKEYBYTES = 32"
definition crypto_sign_BYTES :: nat where "crypto_sign_BYTES = 64"
definition crypto_box_NONCEBYTES :: nat where "crypto_box_NONCEBYTES = 24"
definition crypto_box_MACBYTES :: nat where "crypto_box_MACBYTES = 16"

text \<open>
  \<^verbatim>\<open>Buffer.from(s, 'hex')\<close> decodes two characters at a time and stops at the first pair that
  is not hexadecimal; a trailing single character is dropped. \<^verbatim>\<open>buf.toString('hex')\<close> writes
  two lower-case digits per byte.
\<close>

definition hex_val :: "char \<Rightarrow> nat option" where
  "hex_val c =
     (let n = (of_char c :: nat)
      in if 48 \<le> n \<and> n \<le> 57 then Some (n - 48)
         else if 97 \<le> n \<and> n \<le> 102 then Some (n - 87)
         else if 65 \<le> n \<and> n \<le> 70 then Some (n - 55)
         else None)"

fun from_hex :: "string \<Rightarrow> bytes" where
  "from_hex (a # b # rest) =
     (case (hex_val a, hex_val b) of
        (Some x, Some y) \<Rightarrow> of_nat (16 * x + y) # from_hex rest
      | _ \<Rightarrow> [])"
| "from_hex _ = []"

definition hex_digit :: "nat \<Rightarrow> char" where
  "hex_digit n = ''0123456789abcdef'' ! n"

definition to_hex :: "bytes \<Rightarrow> string" where
  "to_hex bs = concat (map (\<lambda>b. [hex_digit (unat b div 16), hex_digit (unat b mod 16)]) bs)"

definition hashData :: "primitives \<Rightarrow> bytes \<Rightarrow> string" where
  "hashData prim data = to_hex (sha256 prim data)"

definition generatePeerIdHash :: "primitives \<Rightarrow> bytes \<Rightarrow> string" where
  "generatePeerIdHash prim pubKey = take 16 (to_hex (sha256 prim pubKey))"

record signed_hash =
  sh_peerIdHash :: string
  sh_signature :: string
  sh_publicKey :: string
  sh_timestamp :: js_value
  sh_version :: string

record id_verdict =
  id_valid :: bool
  id_reason :: string
  id_peerIdHash :: "string option"
  id_publicKey :: "string option"
  id_trustLevel :: "string option"

definition id_rejected :: "string \<Rightarrow> id_verdict" where
  "id_rejected why =
     \<lparr>id_valid = False, id_reason = why, id_peerIdHash = None, id_publicKey = None,
      id_trustLevel = None\<rparr>"

text \<open>
  \<^verbatim>\<open>verifyPeerIdHash\<close>. The hash, signature and key members are strings; the timestamp is
  whatever the peer sent. \<^verbatim>\<open>Date.now() - timestamp\<close> is \<^verbatim>\<open>NaN\<close> when the timestamp does not
  convert to a number, and then the age test is false. A throw of the signature check ends
  in the \<^verbatim>\<open>catch\<close>, which rejects.
\<close>

definition verifyPeerIdHash :: "primitives \<Rightarrow> int \<Rightarrow> signed_hash \<Rightarrow> id_verdict" where
  "verifyPeerIdHash prim now sh =
     (if sh_version sh \<noteq> ''1.0'' then id_rejected ''Unsupported signature version''
      else if js_less (Some 3600000)
                (js_minus (Some (real_of_int now)) (to_number prim (sh_timestamp sh)))
      then id_rejected ''Signature expired''
      else
        (let message = from_hex (sh_peerIdHash sh);
             sig = from_hex (sh_signature sh);
             pubKey = from_hex (sh_publicKey sh)
         in case crypto_sign_verify_detached prim sig message pubKey of
              None \<Rightarrow> id_rejected ''Verification failed''
            | Some isValid \<Rightarrow>
                (let expectedHash = take 16 (to_hex (sha256 prim pubKey));
                     hashMatches = (expectedHash = sh_peerIdHash sh)
                 in \<lparr>id_valid = (isValid \<and> hashMatches),
                      id_reason = (if isValid \<and> hashMatches then ''Valid peer ID hash''
                                   else ''Invalid signature or hash mismatch''),
                      id_peerIdHash = Some (sh_peerIdHash sh),
                      id_publicKey = Some (sh_publicKey sh),
                      id_trustLevel = Some ''software-verified''\<rparr>)))"

datatype crypto_error =
    NoSharedSecret string
  | InvalidEncryptedDataLength
  | DecryptionFailed
  | ChunkIntegrityFailed nat
  | TypeError

text \<open>
  \<^verbatim>\<open>encrypt\<close> fills a nonce buffer of \<^verbatim>\<open>crypto_box_NONCEBYTES\<close> bytes from the random source
  \<open>rand\<close> (byte \<open>i\<close> of the draw) and returns nonce followed by ciphertext; \<^verbatim>\<open>decrypt\<close> cuts
  the nonce off again. Each \<^verbatim>\<open>throw\<close> is an \<open>Inl\<close>.
\<close>

definition encrypt ::
  "primitives \<Rightarrow> (nat \<Rightarrow> byte) \<Rightarrow> (string \<rightharpoonup> bytes) \<Rightarrow> bytes \<Rightarrow> string \<Rightarrow> crypto_error + bytes" where
  "encrypt prim rand sharedSecrets data peer =
     (case sharedSecrets peer of
        None \<Rightarrow> Inl (NoSharedSecret peer)
      | Some sharedSecret \<Rightarrow>
          (let nonce = map rand [0..<crypto_box_NONCEBYTES];
               ciphertext = crypto_box_easy_afternm prim data nonce sharedSecret
           in Inr (nonce @ ciphertext)))"

definition decrypt ::
  "primitives \<Rightarrow> (string \<rightharpoonup> bytes) \<Rightarrow> bytes \<Rightarrow> string \<Rightarrow> crypto_error + bytes" where
  "decrypt prim sharedSecrets encryptedData peer =
     (case sharedSecrets peer of
        None \<Rightarrow> Inl (NoSharedSecret peer)
      | Some sharedSecret \<Rightarrow>
          if length encryptedData < crypto_box_NONCEBYTES + crypto_box_MACBYTES
          then Inl InvalidEncryptedDataLength
          else
            (let nonce = take crypto_box_NONCEBYTES encryptedData;
                 ciphertext = drop crypto_box_NONCEBYTES encryptedData
             in case crypto_box_open_easy_afternm prim ciphertext nonce sharedSecret of
                  None \<Rightarrow> Inl DecryptionFailed
                | Some plaintext \<Rightarrow> Inr plaintext))"

text \<open>
  What libsodium's secret box promises for nonces of the right size: the ciphertext is the
  message length plus the tag, and opening a sealed message under the same nonce and key
  gives the message back.
\<close>

definition secret_box_contract :: "primitives \<Rightarrow> bool" where
  "secret_box_contract prim \<longleftrightarrow>
     (\<forall>m n k. length n = crypto_box_NONCEBYTES \<longrightarrow>
        length (crypto_box_easy_afternm prim m n k) = length m + crypto_box_MACBYTES
        \<and> crypto_box_open_easy_afternm prim (crypto_box_easy_afternm prim m n k) n k = Some m)"

text \<open>
  Stand-ins for the primitives, used only to run the model on concrete inputs: a ``hash''
  that pads or cuts to 32 bytes, a signature check that throws on a signature shorter than
  64 bytes or a key that is not 32 bytes and otherwise compares the first signature byte
  with the first message byte, a ``box'' that puts a 16-byte tag of the key's first byte in
  front of the message, and a string conversion that reads the empty string as 0 and no
  other string as a number.
\<close>

definition test_primitives :: primitives where
  "test_primitives =
     \<lparr>sha256 = (\<lambda>bs. take 32 (bs @ replicate 32 0)),
      crypto_sign_verify_detached =
        (\<lambda>sig msg pk. if length sig < 64 \<or> length pk \<noteq> 32 then None
                      else Some (take 1 sig = take 1 msg)),
      crypto_box_easy_afternm = (\<lambda>m n k. replicate 16 (hd (k @ [0])) @ m),
      crypto_box_open_easy_afternm =
        (\<lambda>c n k. if take 16 c = replicate 16 (hd (k @ [0])) then Some (drop 16 c) else None),
      from_base64 = (\<lambda>s. map (\<lambda>c. of_nat (of_char c)) s),
      stringify_commitment = (\<lambda>p off ts exp. map (\<lambda>c. of_nat (of_char c)) p),
      string_to_number = (\<lambda>s. if s = [] then Some 0 else None)\<rparr>"

section \<open>Storage commitments and proofs (class StorageVerification)\<close>

text \<open>
  A commitment as it arrives from the peer. The member \<^verbatim>\<open>signature\<close> is \<open>None\<close> when it is
  absent or not an object; the bytes offered, the timestamp and the expiry are whatever
  the peer sent, and the members that are compared or decoded as strings are strings.
\<close>

record commitment_terms =
  maxFileSize :: int
  allowedFileTypes :: "string list"
  verificationFrequency :: int

record signature_obj =
  sig_signature :: string
  sig_publicKey :: string
  sig_algorithm :: string

record commitment =
  c_peerId :: string
  c_publicKey :: string
  c_storageOffered :: js_value
  c_availabilityGuarantee :: string
  c_retentionPeriod :: int
  c_redundancyLevel :: int
  c_timestamp :: js_value
  c_expiresAt :: js_value
  c_terms :: commitment_terms
  c_signature :: "signature_obj option"
  c_hash :: string

datatype verdict = Valid | Invalid string

definition commitmentData :: "primitives \<Rightarrow> commitment \<Rightarrow> bytes" where
  "commitmentData prim c =
     stringify_commitment prim (c_peerId c) (c_storageOffered c) (c_timestamp c) (c_expiresAt c)"

definition verifyCommitment :: "primitives \<Rightarrow> int \<Rightarrow> commitment \<Rightarrow> verdict" where
  "verifyCommitment prim now c =
     (case c_signature c of
        None \<Rightarrow> Invalid ''Invalid signature format''
      | Some sg \<Rightarrow>
          (let message = commitmentData prim c;
               signature = from_hex (sig_signature sg);
               publicKey = from_hex (sig_publicKey sg)
           in if length publicKey \<noteq> crypto_sign_PUBLICKEYBYTES
              then Invalid ''Invalid public key length for Ed25519 signature''
              else if length signature \<noteq> crypto_sign_BYTES
              then Invalid ''Invalid signature length for Ed25519''
              else
                (case crypto_sign_verify_detached prim signature message publicKey of
                   None \<Rightarrow> Invalid ''Signature verification failed''
                 | Some isValid \<Rightarrow>
                     if \<not> isValid
                     then Invalid ''Invalid Ed25519 signature''
                     else if sig_publicKey sg \<noteq> c_publicKey c
                     then Invalid ''Public key mismatch''
                     else if js_less (to_number prim (c_expiresAt c)) (Some (real_of_int now))
                     then Invalid ''Commitment expired''
                     else if js_less (to_number prim (c_storageOffered c)) (Some (1024 * 1024))
                     then Invalid ''Storage offering too small''
                     else if js_less (Some (1024 * 1024 * 1024 * 1024))
                               (to_number prim (c_storageOffered c))
                     then Invalid ''Storage offering suspiciously large''
                     else Valid)))"

definition MiB :: real where "MiB = 1048576"
definition TiB :: real where "TiB = 1099511627776"

text \<open>
  Challenges and proofs. A challenge made by \<^verbatim>\<open>generateChallenge\<close> carries the member of its
  kind; a proof comes from the peer, so any member may be absent. \<^verbatim>\<open>verifyProof\<close> returns
  a truthy or falsy value, kept as a \<open>bool\<close>; \<open>None\<close> is the \<^verbatim>\<open>TypeError\<close> of reading a member
  of \<^verbatim>\<open>undefined\<close>.
\<close>

record challenge =
  ch_id :: string
  ch_backupId :: string
  ch_type :: string
  ch_timestamp :: int
  ch_expiresAt :: int
  blockIndices :: "nat list option"
  fileIndices :: "nat list option"
  ch_nonce :: "string option"

record block_proof =
  bp_index :: nat
  bp_hash :: string
  bp_size :: int

record file_proof =
  fp_index :: nat
  fp_name :: string
  fp_hash :: string
  fp_size :: int

record storage_proof =
  pr_type :: string
  pr_backupId :: string
  pr_error :: "string option"
  blocks :: "block_proof list option"
  files :: "file_proof list option"
  metadataHash :: "string option"
  fileCount :: "nat option"
  totalSize :: "int option"
  pr_nonce :: "string option"

definition truthy :: "string option \<Rightarrow> bool" where
  "truthy x = (case x of None \<Rightarrow> False | Some v \<Rightarrow> v \<noteq> [])"

definition verifyProof :: "challenge \<Rightarrow> storage_proof option \<Rightarrow> bool option" where
  "verifyProof ch prf =
     (case prf of
        None \<Rightarrow> None
      | Some pr \<Rightarrow>
          if truthy (pr_error pr) then Some False
          else if ch_type ch = ''random_blocks'' then
            (case blocks pr of
               None \<Rightarrow> Some False
             | Some bs \<Rightarrow> (case blockIndices ch of
                             None \<Rightarrow> None
                           | Some idx \<Rightarrow> Some (length bs = length idx)))
          else if ch_type ch = ''file_hash'' then
            (case files pr of
               None \<Rightarrow> Some False
             | Some fs \<Rightarrow> (case fileIndices ch of
                             None \<Rightarrow> None
                           | Some idx \<Rightarrow> Some (length fs = length idx)))
          else if ch_type ch = ''metadata_proof'' then
            Some (truthy (metadataHash pr) \<and> pr_nonce pr = ch_nonce ch)
          else Some False)"

text \<open>
  The challenger's local backup metadata, and what the specification asks of an accepted
  proof: the returned indices are the challenged ones and each returned hash is the local
  hash of the file at that index; for a metadata proof, the returned hash is the hash
  recomputed from the local metadata and the echoed nonce. The serialisation of the hashed
  object is the argument \<open>stringify_metadata\<close>.
\<close>

record backup_file =
  bf_name :: string
  bf_hash :: string
  bf_size :: int

record backup =
  b_id :: string
  b_timestamp :: int
  b_files :: "backup_file list"

definition block_matches_local :: "backup \<Rightarrow> block_proof \<Rightarrow> bool" where
  "block_matches_local b bp \<longleftrightarrow>
     bp_index bp < length (b_files b) \<and> bp_hash bp = bf_hash (b_files b ! bp_index bp)"

definition file_matches_local :: "backup \<Rightarrow> file_proof \<Rightarrow> bool" where
  "file_matches_local b fp \<longleftrightarrow>
     fp_index fp < length (b_files b) \<and> fp_hash fp = bf_hash (b_files b ! fp_index fp)"

definition recomputed_metadata_hash ::
  "primitives \<Rightarrow> (string \<Rightarrow> int \<Rightarrow> nat \<Rightarrow> string option \<Rightarrow> bytes) \<Rightarrow> backup \<Rightarrow> string option \<Rightarrow> string" where
  "recomputed_metadata_hash prim stringify_metadata b nonce =
     hashData prim (stringify_metadata (b_id b) (b_timestamp b) (length (b_files b)) nonce)"

definition proof_matches_local ::
  "primitives \<Rightarrow> (string \<Rightarrow> int \<Rightarrow> nat \<Rightarrow> string option \<Rightarrow> bytes) \<Rightarrow> backup \<Rightarrow> challenge \<Rightarrow> storage_proof \<Rightarrow> bool" where
  "proof_matches_local prim stringify_metadata b ch pr =
     (if ch_type ch = ''random_blocks'' then
        (case (blocks pr, blockIndices ch) of
           (Some bs, Some idx) \<Rightarrow> map bp_index bs = idx \<and> list_all (block_matches_local b) bs
         | _ \<Rightarrow> False)
      else if ch_type ch = ''file_hash'' then
        (case (files pr, fileIndices ch) of
           (Some fs, Some idx) \<Rightarrow> map fp_index fs = idx \<and> list_all (file_matches_local b) fs
         | _ \<Rightarrow> False)
      else if ch_type ch = ''metadata_proof'' then
        metadataHash pr = Some (recomputed_metadata_hash prim stringify_metadata b (pr_nonce pr))
      else False)"

text \<open>Concrete data for running the model.\<close>

definition test_backup :: backup where
  "test_backup =
     \<lparr>b_id = ''backup-1'', b_timestamp = 1000,
      b_files = [\<lparr>bf_name = ''a.txt'', bf_hash = ''aa'', bf_size = 10\<rparr>]\<rparr>"

definition test_challenge :: "string \<Rightarrow> challenge" where
  "test_challenge kind =
     \<lparr>ch_id = ''challenge-1'', ch_backupId = ''backup-1'', ch_type = kind, ch_timestamp = 2000,
      ch_expiresAt = 302000, blockIndices = (if kind = ''random_blocks'' then Some [0] else None),
      fileIndices = (if kind = ''file_hash'' then Some [0] else None),
      ch_nonce = (if kind = ''metadata_proof'' then Some ''n1'' else None)\<rparr>"

definition forged_block_proof :: storage_proof where
  "forged_block_proof =
     \<lparr>pr_type = ''random_blocks'', pr_backupId = ''backup-1'', pr_error = None,
      blocks = Some [\<lparr>bp_index = 7, bp_hash = ''ff'', bp_size = 0\<rparr>], files = None,
      metadataHash = None, fileCount = None, totalSize = None, pr_nonce = None\<rparr>"

definition forged_metadata_proof :: storage_proof where
  "forged_metadata_proof =
     \<lparr>pr_type = ''metadata_proof'', pr_backupId = ''backup-1'', pr_error = None,
      blocks = None, files = None, metadataHash = Some ''x'', fileCount = Some 1,
      totalSize = Some 10, pr_nonce = Some ''n1''\<rparr>"

definition test_stringify_metadata :: "string \<Rightarrow> int \<Rightarrow> nat \<Rightarrow> string option \<Rightarrow> bytes" where
  "test_stringify_metadata bid ts n nonce = map (\<lambda>c. of_nat (of_char c)) bid"

definition test_key_hex :: string where
  "test_key_hex = concat (replicate 32 ''ab'')"

definition test_sig_hex :: string where
  "test_sig_hex = concat (replicate 64 ''70'')"

definition test_commitment :: "js_value \<Rightarrow> js_value \<Rightarrow> commitment" where
  "test_commitment bytes_offered expires =
     \<lparr>c_peerId = ''peerA'', c_publicKey = test_key_hex, c_storageOffered = bytes_offered,
      c_availabilityGuarantee = ''24/7'', c_retentionPeriod = 31536000000,
      c_redundancyLevel = 1, c_timestamp = JS_number 1000, c_expiresAt = expires,
      c_terms = \<lparr>maxFileSize = 1073741824, allowedFileTypes = [''*''],
                  verificationFrequency = 86400000\<rparr>,
      c_signature = Some \<lparr>sig_signature = test_sig_hex, sig_publicKey = test_key_hex,
                            sig_algorithm = ''Ed25519''\<rparr>,
      c_hash = ''''\<rparr>"

definition test_signed_hash :: "js_value \<Rightarrow> signed_hash" where
  "test_signed_hash issued =
     \<lparr>sh_peerIdHash = ''abababababababab'', sh_signature = concat (replicate 64 ''ab''),
      sh_publicKey = test_key_hex, sh_timestamp = issued, sh_version = ''1.0''\<rparr>"

section \<open>Receiving file chunks (class FileTransfer)\<close>

text \<open>
  The receiver's state: the two maps of \<^verbatim>\<open>FileTransfer\<close>, the shared secrets of its crypto
  object, and the connection it sends on. \<^verbatim>\<open>connection.send\<close> hands a message to the channel
  when the connection is up and drops it otherwise; \<open>outbox\<close> lists what was handed over.
\<close>

record transfer_state =
  fileName :: string
  fileSize :: int
  totalChunks :: nat
  tr_receivedChunks :: nat
  expectedHash :: string
  startTime :: int
  tr_status :: string

datatype out_message =
    FileStartAck string string
  | ChunkAck string nat string "crypto_error option"

record file_transfer =
  connected :: bool
  outbox :: "out_message list"
  sharedSecrets :: "string \<rightharpoonup> bytes"
  activeTransfers :: "string \<rightharpoonup> transfer_state"
  receivedChunks :: "string \<rightharpoonup> (nat \<rightharpoonup> bytes)"

record file_start_msg =
  fs_transferId :: string
  fs_fileName :: string
  fs_fileSize :: int
  fs_totalChunks :: nat
  fs_fileHash :: string

record file_chunk_msg =
  fc_transferId :: string
  fc_chunkIndex :: nat
  fc_chunkSize :: int
  fc_encryptedData :: string
  fc_chunkHash :: string

definition send :: "out_message \<Rightarrow> file_transfer \<Rightarrow> file_transfer" where
  "send m ft = (if connected ft then ft\<lparr>outbox := outbox ft @ [m]\<rparr> else ft)"

definition handleFileStart :: "int \<Rightarrow> file_start_msg \<Rightarrow> string \<Rightarrow> file_transfer \<Rightarrow> file_transfer" where
  "handleFileStart now msg peer ft =
     send (FileStartAck (fs_transferId msg) ''ready'')
       (ft\<lparr>receivedChunks := (receivedChunks ft)(fs_transferId msg \<mapsto> Map.empty),
           activeTransfers := (activeTransfers ft)(fs_transferId msg \<mapsto>
             \<lparr>fileName = fs_fileName msg, fileSize = fs_fileSize msg,
              totalChunks = fs_totalChunks msg, tr_receivedChunks = 0,
              expectedHash = fs_fileHash msg, startTime = now,
              tr_status = ''receiving''\<rparr>)\<rparr>)"

text \<open>
  \<^verbatim>\<open>handleFileChunk\<close>. Every \<^verbatim>\<open>throw\<close> inside the \<^verbatim>\<open>try\<close> ends in the \<^verbatim>\<open>catch\<close>, which sends
  the error acknowledgment: a failed decryption, a hash that differs, and the \<^verbatim>\<open>TypeError\<close>
  of using the chunk map or the transfer record of a transfer that was never started. The
  chunk map is written before the transfer record is read, so in the last case the chunk
  is already stored when the error is sent.
\<close>

definition handleFileChunk ::
  "primitives \<Rightarrow> file_chunk_msg \<Rightarrow> string \<Rightarrow> file_transfer \<Rightarrow> file_transfer" where
  "handleFileChunk prim msg peer ft =
     (let transferId = fc_transferId msg;
          chunkIndex = fc_chunkIndex msg;
          encryptedBuffer = from_base64 prim (fc_encryptedData msg)
      in case decrypt prim (sharedSecrets ft) encryptedBuffer peer of
           Inl e \<Rightarrow> send (ChunkAck transferId chunkIndex ''error'' (Some e)) ft
         | Inr decryptedChunk \<Rightarrow>
             if hashData prim decryptedChunk \<noteq> fc_chunkHash msg
             then send (ChunkAck transferId chunkIndex ''error''
                          (Some (ChunkIntegrityFailed chunkIndex))) ft
             else
               (case receivedChunks ft transferId of
                  None \<Rightarrow> send (ChunkAck transferId chunkIndex ''error'' (Some TypeError)) ft
                | Some chunks \<Rightarrow>
                    (let ft1 = ft\<lparr>receivedChunks := (receivedChunks ft)
                                     (transferId \<mapsto> chunks(chunkIndex \<mapsto> decryptedChunk))\<rparr>
                     in case activeTransfers ft transferId of
                          None \<Rightarrow>
                            send (ChunkAck transferId chunkIndex ''error'' (Some TypeError)) ft1
                        | Some transfer \<Rightarrow>
                            send (ChunkAck transferId chunkIndex ''received'' None)
                              (ft1\<lparr>activeTransfers := (activeTransfers ft1)
                                      (transferId \<mapsto> transfer\<lparr>tr_receivedChunks :=
                                         tr_receivedChunks transfer + 1\<rparr>)\<rparr>))))"

text \<open>
  The two checks on a chunk: \<open>chunk_failure\<close> is the error of a failed decryption or of a
  decrypted chunk whose SHA-256 differs from the claimed chunk hash, \<open>None\<close> when both
  checks pass. \<open>new_messages\<close> are the messages a handler added to the outbox.
\<close>

definition chunk_failure ::
  "primitives \<Rightarrow> file_chunk_msg \<Rightarrow> string \<Rightarrow> file_transfer \<Rightarrow> crypto_error option" where
  "chunk_failure prim msg peer ft =
     (case decrypt prim (sharedSecrets ft) (from_base64 prim (fc_encryptedData msg)) peer of
        Inl e \<Rightarrow> Some e
      | Inr d \<Rightarrow> if hashData prim d \<noteq> fc_chunkHash msg
                 then Some (ChunkIntegrityFailed (fc_chunkIndex msg)) else None)"

definition new_messages :: "file_transfer \<Rightarrow> file_transfer \<Rightarrow> out_message list" where
  "new_messages ft ft' = drop (length (outbox ft)) (outbox ft')"

fun is_received_ack :: "out_message \<Rightarrow> bool" where
  "is_received_ack (ChunkAck t i st e) = (st = ''received'')"
| "is_received_ack _ = False"

text \<open>Concrete data for running the model.\<close>

definition test_receiver :: file_transfer where
  "test_receiver =
     handleFileStart 0
       \<lparr>fs_transferId = ''t1'', fs_fileName = ''a.txt'', fs_fileSize = 2, fs_totalChunks = 1,
        fs_fileHash = ''''\<rparr> ''peerB''
       \<lparr>connected = True, outbox = [], sharedSecrets = [''peerB'' \<mapsto> [0x6b]],
        activeTransfers = Map.empty, receivedChunks = Map.empty\<rparr>"

definition test_chunk :: "string \<Rightarrow> file_chunk_msg" where
  "test_chunk claimed_hash =
     \<lparr>fc_transferId = ''t1'', fc_chunkIndex = 0, fc_chunkSize = 2,
      fc_encryptedData = replicate 24 CHR ''n'' @ replicate 16 CHR ''k'' @ ''hi'',
      fc_chunkHash = claimed_hash\<rparr>"

definition test_chunk_hash :: string where
  "test_chunk_hash = ''6869'' @ replicate 60 CHR ''0''"

section \<open>Rate limiter and inbound dispatch (classes RateLimiter and P2PConnection)\<close>

text \<open>
  The rate limiter keeps, per key, the clock readings of admitted requests. Its timers
  (\<^verbatim>\<open>setTimeout\<close> in \<^verbatim>\<open>banPeer\<close>) are data: the due time and the peer to unban, run by
  \<open>fire_timers\<close>. \<^verbatim>\<open>bannedPeers\<close> does not exist before the first ban. Emitted events are
  collected in \<open>rl_events\<close>. Utilisations are exact rationals here, doubles in the code.
\<close>

datatype rl_event =
    RateLimited string string string
  | PeerBanned string int
  | PeerUnbanned string

record rate_limiter =
  maxRequests :: nat
  windowMs :: int
  maxBurst :: nat
  burstWindowMs :: int
  requests :: "string \<rightharpoonup> int list"
  bursts :: "string \<rightharpoonup> int list"
  bannedPeers :: "(string \<rightharpoonup> int) option"
  timers :: "(int \<times> string) list"
  rl_events :: "rl_event list"

definition new_RateLimiter ::
  "nat option \<Rightarrow> int option \<Rightarrow> nat option \<Rightarrow> int option \<Rightarrow> rate_limiter" where
  "new_RateLimiter optMaxRequests optWindowMs optMaxBurst optBurstWindowMs =
     \<lparr>maxRequests = num_or optMaxRequests 100,
      windowMs = num_or optWindowMs 60000,
      maxBurst = num_or optMaxBurst 20,
      burstWindowMs = num_or optBurstWindowMs 1000,
      requests = Map.empty, bursts = Map.empty, bannedPeers = None, timers = [],
      rl_events = []\<rparr>"

definition history :: "(string \<rightharpoonup> int list) \<Rightarrow> string \<Rightarrow> int list" where
  "history m k = (case m k of None \<Rightarrow> [] | Some ts \<Rightarrow> ts)"

definition recent :: "int \<Rightarrow> int \<Rightarrow> int list \<Rightarrow> int list" where
  "recent now window ts = filter (\<lambda>t. now - t < window) ts"

definition checkBurstLimit :: "rate_limiter \<Rightarrow> string \<Rightarrow> int \<Rightarrow> bool" where
  "checkBurstLimit rl peer now =
     (length (recent now (burstWindowMs rl) (history (bursts rl) peer)) < maxBurst rl)"

definition checkWindowLimit :: "rate_limiter \<Rightarrow> string \<Rightarrow> int \<Rightarrow> bool" where
  "checkWindowLimit rl peer now =
     (length (recent now (windowMs rl) (history (requests rl) peer)) < maxRequests rl)"

definition messageLimits :: "string \<Rightarrow> (nat \<times> int) option" where
  "messageLimits messageType =
     (if messageType = ''file_chunk'' then Some (200, 60000)
      else if messageType = ''ping'' then Some (60, 60000)
      else if messageType = ''storage_challenge'' then Some (10, 60000)
      else if messageType = ''peer_identity'' then Some (5, 60000)
      else if messageType = ''file_start'' then Some (20, 60000)
      else None)"

definition checkMessageTypeLimit ::
  "rate_limiter \<Rightarrow> string \<Rightarrow> string \<Rightarrow> int \<Rightarrow> bool \<times> rate_limiter" where
  "checkMessageTypeLimit rl peer messageType now =
     (case messageLimits messageType of
        None \<Rightarrow> (True, rl)
      | Some (limit_max, limit_window) \<Rightarrow>
          (let key = peer @ ''-'' @ messageType;
               recentRequests = recent now limit_window (history (requests rl) key)
           in if length recentRequests \<ge> limit_max then (False, rl)
              else (True, rl\<lparr>requests := (requests rl)(key \<mapsto> recentRequests @ [now])\<rparr>)))"

definition recordRequest :: "rate_limiter \<Rightarrow> string \<Rightarrow> int \<Rightarrow> rate_limiter" where
  "recordRequest rl peer ts =
     rl\<lparr>requests := (requests rl)(peer \<mapsto> history (requests rl) peer @ [ts]),
        bursts := (bursts rl)(peer \<mapsto> history (bursts rl) peer @ [ts])\<rparr>"

definition emit :: "rl_event \<Rightarrow> rate_limiter \<Rightarrow> rate_limiter" where
  "emit e rl = rl\<lparr>rl_events := rl_events rl @ [e]\<rparr>"

definition isAllowed :: "rate_limiter \<Rightarrow> string \<Rightarrow> string \<Rightarrow> int \<Rightarrow> bool \<times> rate_limiter" where
  "isAllowed rl peer messageType now =
     (if \<not> checkBurstLimit rl peer now
      then (False, emit (RateLimited peer ''burst_limit'' messageType) rl)
      else if \<not> checkWindowLimit rl peer now
      then (False, emit (RateLimited peer ''window_limit'' messageType) rl)
      else (case checkMessageTypeLimit rl peer messageType now of
              (False, rl1) \<Rightarrow> (False, emit (RateLimited peer ''message_type_limit'' messageType) rl1)
            | (True, rl1) \<Rightarrow> (True, recordRequest rl1 peer now)))"

definition cleanup_history :: "int \<Rightarrow> int \<Rightarrow> (string \<rightharpoonup> int list) \<Rightarrow> (string \<rightharpoonup> int list)" where
  "cleanup_history now window m =
     (\<lambda>k. case m k of
             None \<Rightarrow> None
           | Some ts \<Rightarrow> if recent now window ts = [] then None else Some (recent now window ts))"

definition cleanup :: "int \<Rightarrow> rate_limiter \<Rightarrow> rate_limiter" where
  "cleanup now rl =
     rl\<lparr>requests := cleanup_history now (windowMs rl * 2) (requests rl),
        bursts := cleanup_history now (burstWindowMs rl * 2) (bursts rl)\<rparr>"

record rl_stats =
  windowRequests :: nat
  maxWindowRequests :: nat
  burstRequests :: nat
  maxBurstRequests :: nat
  windowUtilization :: real
  burstUtilization :: real

definition getStats :: "rate_limiter \<Rightarrow> string \<Rightarrow> int \<Rightarrow> rl_stats" where
  "getStats rl peer now =
     (let recentRequests = recent now (windowMs rl) (history (requests rl) peer);
          recentBursts = recent now (burstWindowMs rl) (history (bursts rl) peer)
      in \<lparr>windowRequests = length recentRequests,
          maxWindowRequests = maxRequests rl,
          burstRequests = length recentBursts,
          maxBurstRequests = maxBurst rl,
          windowUtilization = real (length recentRequests) / real (maxRequests rl) * 100,
          burstUtilization = real (length recentBursts) / real (maxBurst rl) * 100\<rparr>)"

definition banPeer :: "rate_limiter \<Rightarrow> string \<Rightarrow> int \<Rightarrow> int \<Rightarrow> rate_limiter" where
  "banPeer rl peer durationMs now =
     (let banUntil = now + durationMs;
          banned = (case bannedPeers rl of None \<Rightarrow> Map.empty | Some m \<Rightarrow> m)
      in emit (PeerBanned peer durationMs)
           (rl\<lparr>bannedPeers := Some (banned(peer \<mapsto> banUntil)),
               timers := timers rl @ [(now + durationMs, peer)]\<rparr>))"

definition isBanned :: "rate_limiter \<Rightarrow> string \<Rightarrow> int \<Rightarrow> bool \<times> rate_limiter" where
  "isBanned rl peer now =
     (case bannedPeers rl of
        None \<Rightarrow> (False, rl)
      | Some banned \<Rightarrow>
          (case banned peer of
             None \<Rightarrow> (False, rl)
           | Some banUntil \<Rightarrow>
               if banUntil = 0 then (False, rl)
               else if now > banUntil
               then (False, rl\<lparr>bannedPeers := Some (banned(peer := None))\<rparr>)
               else (True, rl)))"

fun fire_timers :: "int \<Rightarrow> (int \<times> string) list \<Rightarrow> rate_limiter \<Rightarrow> rate_limiter" where
  "fire_timers now [] rl = rl\<lparr>timers := []\<rparr>"
| "fire_timers now ((due, peer) # ts) rl =
     (if due \<le> now
      then fire_timers now ts
             (emit (PeerUnbanned peer)
                (rl\<lparr>bannedPeers := map_option (\<lambda>m. m(peer := None)) (bannedPeers rl)\<rparr>))
      else (let rl' = fire_timers now ts rl in rl'\<lparr>timers := (due, peer) # timers rl'\<rparr>))"

text \<open>
  The handler of the channel's \<^verbatim>\<open>data\<close> event in \<^verbatim>\<open>initializeWebRTC\<close>. A message is its
  \<^verbatim>\<open>type\<close>; the result names the branch that took it.
\<close>

datatype dispatch =
    Dropped
  | HandledPing
  | HandledPong
  | HandledPeerIdentity
  | ToFileTransfer
  | ToVerification

record p2p_connection =
  rateLimiter :: rate_limiter
  currentPeerId :: "string option"
  has_fileTransfer :: bool

definition isFileTransferMessage :: "string \<Rightarrow> bool" where
  "isFileTransferMessage messageType \<longleftrightarrow>
     messageType \<in> set [''file_start'', ''file_chunk'', ''file_complete'', ''file_start_ack'',
                         ''file_complete_ack'', ''chunk_ack'', ''backup_start'',
                         ''backup_complete'']"

definition on_data :: "int \<Rightarrow> string \<Rightarrow> p2p_connection \<Rightarrow> dispatch \<times> p2p_connection" where
  "on_data now messageType conn =
     (let senderId = str_or (currentPeerId conn) ''unknown''
      in case isAllowed (rateLimiter conn) senderId messageType now of
           (False, rl1) \<Rightarrow>
             (let stats = getStats rl1 senderId now
              in if windowUtilization stats > 90 \<or> burstUtilization stats > 95
                 then (Dropped, conn\<lparr>rateLimiter := banPeer rl1 senderId 300000 now\<rparr>)
                 else (Dropped, conn\<lparr>rateLimiter := rl1\<rparr>))
         | (True, rl1) \<Rightarrow>
             (let conn1 = conn\<lparr>rateLimiter := rl1\<rparr>
              in if messageType = ''ping'' then (HandledPing, conn1)
                 else if messageType = ''pong'' then (HandledPong, conn1)
                 else if messageType = ''peer_identity'' then (HandledPeerIdentity, conn1)
                 else if has_fileTransfer conn \<and> isFileTransferMessage messageType
                 then (ToFileTransfer, conn1)
                 else (ToVerification, conn1)))"

text \<open>
  Delivery of a message at a clock reading: the timers that are due run first, then the
  handler. \<open>deliver_all\<close> delivers a list of timed messages in order.
\<close>

definition deliver :: "int \<Rightarrow> string \<Rightarrow> p2p_connection \<Rightarrow> dispatch \<times> p2p_connection" where
  "deliver now messageType conn =
     on_data now messageType
       (conn\<lparr>rateLimiter := fire_timers now (timers (rateLimiter conn)) (rateLimiter conn)\<rparr>)"

fun deliver_all :: "(int \<times> string) list \<Rightarrow> p2p_connection \<Rightarrow> p2p_connection" where
  "deliver_all [] conn = conn"
| "deliver_all ((now, messageType) # ms) conn = deliver_all ms (snd (deliver now messageType conn))"

definition connection_to :: "string \<Rightarrow> p2p_connection" where
  "connection_to peer =
     \<lparr>rateLimiter = new_RateLimiter (Some 100) (Some 60000) (Some 20) (Some 1000),
      currentPeerId = Some peer, has_fileTransfer = True\<rparr>"

definition flooded :: p2p_connection where
  "flooded = deliver_all (replicate 21 (0, ''pong'')) (connection_to ''peerA'')"

text \<open>
  The states of the run: \<open>quiet n\<close> after \<open>n\<close> admitted messages of peerA at clock 0 under the
  limits the connection sets, and \<open>banned_until t\<close> once the ban until \<open>t\<close> is recorded.
\<close>

definition limits_of_connection :: "rate_limiter \<Rightarrow> bool" where
  "limits_of_connection rl \<longleftrightarrow>
     maxRequests rl = 100 \<and> windowMs rl = 60000 \<and> maxBurst rl = 20 \<and> burstWindowMs rl = 1000"

definition quiet :: "nat \<Rightarrow> p2p_connection \<Rightarrow> bool" where
  "quiet n conn \<longleftrightarrow>
     currentPeerId conn = Some ''peerA''
     \<and> limits_of_connection (rateLimiter conn)
     \<and> history (requests (rateLimiter conn)) ''peerA'' = replicate n 0
     \<and> history (bursts (rateLimiter conn)) ''peerA'' = replicate n 0
     \<and> bannedPeers (rateLimiter conn) = None
     \<and> timers (rateLimiter conn) = []"

definition banned_until :: "int \<Rightarrow> p2p_connection \<Rightarrow> bool" where
  "banned_until t conn \<longleftrightarrow>
     currentPeerId conn = Some ''peerA''
     \<and> limits_of_connection (rateLimiter conn)
     \<and> history (requests (rateLimiter conn)) ''peerA'' = replicate 20 0
     \<and> history (bursts (rateLimiter conn)) ''peerA'' = replicate 20 0
     \<and> (\<exists>m. bannedPeers (rateLimiter conn) = Some m \<and> m ''peerA'' = Some t)
     \<and> timers (rateLimiter conn) = [(t, ''peerA'')]"

section \<open>Admission check\<close>

text \<open>
  Claim C4. For every ledger, peer and request size, \<^verbatim>\<open>canAcceptBackup\<close> admits exactly when
  used + N \<open>\<le>\<close> offered + offered-to-peer and offered \<open><\<close> max-offered, where offered-to-peer
  is the \<open>offered\<close> amount of the peer's entry in the table, 0 without an entry; a rejection
  carries the ratio reason when the first comparison fails and the capacity reason
  otherwise, and the two reasons differ.
\<close>

theorem canAcceptBackup_iff:
  "(canAccept (canAcceptBackup s n p) \<longleftrightarrow>
      storageUsed s + n
        \<le> storageOffered s + (case map_of (allocations s) p of Some a \<Rightarrow> offered a | None \<Rightarrow> 0)
      \<and> storageOffered s < maxStorageOffered s)
   \<and> (\<not> canAccept (canAcceptBackup s n p) \<longrightarrow>
        reason (canAcceptBackup s n p) =
          Some (if storageUsed s + n
                     > storageOffered s
                       + (case map_of (allocations s) p of Some a \<Rightarrow> offered a | None \<Rightarrow> 0)
                then ''Insufficient allocation - violates 1:1 ratio''
                else ''Maximum storage capacity reached''))
   \<and> (canAccept (canAcceptBackup s n p) \<longrightarrow> reason (canAcceptBackup s n p) = None)
   \<and> ''Insufficient allocation - violates 1:1 ratio'' \<noteq> ''Maximum storage capacity reached''"
  by (auto simp: canAcceptBackup_def getAllocatedToPeer_def Let_def ratio_reason_def
        capacity_reason_def)

lemma traded_ledger_totals:
  "storageUsed traded_ledger = 15"
  "storageOffered traded_ledger = 10"
  "maxStorageOffered traded_ledger = 100"
  by (simp_all add: traded_ledger_def setMaxStorage_def initial_allocation_def
        allocateStorageToPeer_def recordStorageUsed_def get_or_default_def
        default_peer_allocation_def Let_def)

lemma traded_ledger_entries:
  "map_option offered (map_of (allocations traded_ledger) ''peerA'') = Some 10"
  "map_option offered (map_of (allocations traded_ledger) ''peerB'') = Some 0"
  "map_of (allocations traded_ledger) ''peerC'' = None"
  by (simp_all add: traded_ledger_def setMaxStorage_def initial_allocation_def
        allocateStorageToPeer_def recordStorageUsed_def get_or_default_def
        default_peer_allocation_def Let_def)

theorem canAcceptBackup_iff_witness:
  "canAccept (canAcceptBackup traded_ledger 5 ''peerA'')
   \<and> \<not> canAccept (canAcceptBackup traded_ledger 6 ''peerA'')
   \<and> \<not> canAccept (canAcceptBackup traded_ledger 5 ''peerB'')
   \<and> \<not> canAccept (canAcceptBackup traded_ledger 5 ''peerC'')
   \<and> reason (canAcceptBackup traded_ledger 5 ''peerC'')
       = Some ''Insufficient allocation - violates 1:1 ratio''
   \<and> \<not> canAccept (canAcceptBackup (setMaxStorage 10 traded_ledger) 5 ''peerA'')
   \<and> reason (canAcceptBackup (setMaxStorage 10 traded_ledger) 5 ''peerA'')
       = Some ''Maximum storage capacity reached''"
proof -
  have a: "map_of (allocations traded_ledger) ''peerA'' = Some e \<Longrightarrow> offered e = 10" for e
    using traded_ledger_entries(1) by simp
  have b: "map_of (allocations traded_ledger) ''peerB'' = Some e \<Longrightarrow> offered e = 0" for e
    using traded_ledger_entries(2) by simp
  have ea: "\<exists>e. map_of (allocations traded_ledger) ''peerA'' = Some e"
    using traded_ledger_entries(1) by (cases "map_of (allocations traded_ledger) ''peerA''") simp_all
  have eb: "\<exists>e. map_of (allocations traded_ledger) ''peerB'' = Some e"
    using traded_ledger_entries(2) by (cases "map_of (allocations traded_ledger) ''peerB''") simp_all
  have 1: "canAccept (canAcceptBackup traded_ledger 5 ''peerA'')"
    using canAcceptBackup_iff [of traded_ledger 5 "''peerA''"] ea a traded_ledger_totals
    by auto
  have 2: "\<not> canAccept (canAcceptBackup traded_ledger 6 ''peerA'')"
    using canAcceptBackup_iff [of traded_ledger 6 "''peerA''"] ea a traded_ledger_totals
    by auto
  have 3: "\<not> canAccept (canAcceptBackup traded_ledger 5 ''peerB'')"
    using canAcceptBackup_iff [of traded_ledger 5 "''peerB''"] eb b traded_ledger_totals
    by auto
  have 4: "\<not> canAccept (canAcceptBackup traded_ledger 5 ''peerC'')
           \<and> reason (canAcceptBackup traded_ledger 5 ''peerC'')
               = Some ''Insufficient allocation - violates 1:1 ratio''"
    using canAcceptBackup_iff [of traded_ledger 5 "''peerC''"] traded_ledger_entries(3)
      traded_ledger_totals
    by auto
  have 5: "\<not> canAccept (canAcceptBackup (setMaxStorage 10 traded_ledger) 5 ''peerA'')
           \<and> reason (canAcceptBackup (setMaxStorage 10 traded_ledger) 5 ''peerA'')
               = Some ''Maximum storage capacity reached''"
    using canAcceptBackup_iff [of "setMaxStorage 10 traded_ledger" 5 "''peerA''"] ea a
      traded_ledger_totals
    by (auto simp: setMaxStorage_def)
  show ?thesis using 1 2 3 4 5 by blast
qed

section \<open>Ledger reconciliation\<close>

lemma sum_update:
  fixes f :: "'v \<Rightarrow> int"
  shows "sum_list (map (\<lambda>(k, a). f a) (AList.update k v al)) =
         sum_list (map (\<lambda>(k, a). f a) al)
           - (case map_of al k of Some a \<Rightarrow> f a | None \<Rightarrow> 0) + f v"
  by (induction al) auto

lemma sum_delete:
  fixes f :: "'v \<Rightarrow> int"
  shows "distinct (map fst al) \<Longrightarrow>
         sum_list (map (\<lambda>(k, a). f a) (AList.delete k al)) =
         sum_list (map (\<lambda>(k, a). f a) al)
           - (case map_of al k of Some a \<Rightarrow> f a | None \<Rightarrow> 0)"
proof (induction al)
  case Nil
  then show ?case by simp
next
  case (Cons x al)
  obtain k' a' where x: "x = (k', a')" by (cases x)
  show ?case
  proof (cases "k' = k")
    case True
    with Cons x have "k \<notin> fst ` set al" by auto
    then have "AList.delete k al = al" "map_of al k = None"
      by (simp_all add: map_of_eq_None_iff)
    with True x show ?thesis by simp
  next
    case False
    with Cons x show ?thesis by simp
  qed
qed

lemma sum_ge_entry:
  fixes f :: "'v \<Rightarrow> int"
  shows "list_all (\<lambda>(k, a). 0 \<le> f a) al \<Longrightarrow> map_of al k = Some e \<Longrightarrow>
         f e \<le> sum_list (map (\<lambda>(k, a). f a) al)"
proof (induction al)
  case Nil then show ?case by simp
next
  case (Cons x al)
  have nn: "0 \<le> sum_list (map (\<lambda>(k, a). f a) al)"
    using Cons.prems(1) by (intro sum_list_nonneg) (auto simp: list_all_iff)
  show ?case using Cons nn by (cases x) (auto split: if_splits)
qed

lemma nonneg_update:
  "entries_nonneg al \<Longrightarrow> 0 \<le> offered v \<Longrightarrow> 0 \<le> used v \<Longrightarrow>
   entries_nonneg (AList.update k v al)"
  unfolding entries_nonneg_def by (induction al) auto

lemma nonneg_delete: "entries_nonneg al \<Longrightarrow> entries_nonneg (AList.delete k al)"
  unfolding entries_nonneg_def by (induction al) auto

lemma nonneg_lookup:
  "entries_nonneg al \<Longrightarrow> map_of al k = Some e \<Longrightarrow> 0 \<le> offered e \<and> 0 \<le> used e"
  unfolding entries_nonneg_def by (induction al) (auto split: if_splits)


lemma inv_allocate:
  assumes "ledger_inv s" "0 \<le> b"
  shows "ledger_inv (allocateStorageToPeer now p b bid s)"
proof -
  let ?e = "get_or_default s p"
  have e: "0 \<le> offered ?e \<and> 0 \<le> used ?e"
    using assms(1) nonneg_lookup [of "allocations s" p]
    by (auto simp: get_or_default_def default_peer_allocation_def ledger_inv_def
             split: option.splits)
  have off: "(case map_of (allocations s) p of Some a \<Rightarrow> offered a | None \<Rightarrow> 0) = offered ?e"
    by (simp add: get_or_default_def default_peer_allocation_def split: option.splits)
  show ?thesis
    using assms e off
    by (simp add: ledger_inv_def allocateStorageToPeer_def Let_def sumOffered_def
                  sum_update distinct_update nonneg_update)
qed

lemma offered_recordUsed:
  assumes "ledger_inv s" "0 \<le> b"
  shows "ledger_inv (recordStorageUsed now p b bid s)"
proof -
  let ?e = "get_or_default s p"
  have e: "0 \<le> offered ?e \<and> 0 \<le> used ?e"
    using assms(1) nonneg_lookup [of "allocations s" p]
    by (auto simp: get_or_default_def default_peer_allocation_def ledger_inv_def
             split: option.splits)
  have off: "(case map_of (allocations s) p of Some a \<Rightarrow> offered a | None \<Rightarrow> 0) = offered ?e"
    by (simp add: get_or_default_def default_peer_allocation_def split: option.splits)
  show ?thesis
    using assms e off
    by (simp add: ledger_inv_def recordStorageUsed_def Let_def sumOffered_def
                  sum_update distinct_update nonneg_update)
qed

lemma used_recordUsed:
  assumes "sumUsed s = storageUsed s"
  shows "sumUsed (recordStorageUsed now p b bid s) = storageUsed (recordStorageUsed now p b bid s)"
proof -
  have "(case map_of (allocations s) p of Some a \<Rightarrow> used a | None \<Rightarrow> 0) = used (get_or_default s p)"
    by (simp add: get_or_default_def default_peer_allocation_def split: option.splits)
  then show ?thesis using assms
    by (simp add: recordStorageUsed_def Let_def sumUsed_def sum_update)
qed

lemma inv_release:
  assumes inv: "ledger_inv s" and ok: "op_ok (Release now p b isOff) s"
  shows "ledger_inv (releaseAllocation now p b isOff s)"
proof (cases "map_of (allocations s) p")
  case None
  then show ?thesis using inv by (simp add: releaseAllocation_def)
next
  case (Some e)
  have d: "distinct (map fst (allocations s))" and nn: "entries_nonneg (allocations s)"
    and sm: "sumOffered s = storageOffered s"
    using inv by (simp_all add: ledger_inv_def)
  have e: "0 \<le> offered e" "0 \<le> used e" using nonneg_lookup [OF nn Some] by simp_all
  have le: "offered e \<le> sumOffered s"
    unfolding sumOffered_def
    using sum_ge_entry [of offered "allocations s" p e] nn Some
    by (simp add: entries_nonneg_def list_all_iff case_prod_beta)
  show ?thesis
  proof (cases isOff)
    case True
    then have b: "0 \<le> b" "b \<le> offered e"
      using ok Some by (simp_all add: getAllocatedToPeer_def)
    show ?thesis
      using True Some d nn sm e le b
      by (auto simp: ledger_inv_def releaseAllocation_def Let_def sumOffered_def
                     sum_update sum_delete distinct_update distinct_delete
                     nonneg_update nonneg_delete max_def)
  next
    case False
    then have b: "0 \<le> b" "b \<le> used e"
      using ok Some by (simp_all add: getUsedFromPeer_def)
    show ?thesis
      using False Some d nn sm e le b
      by (auto simp: ledger_inv_def releaseAllocation_def Let_def sumOffered_def
                     sum_update sum_delete distinct_update distinct_delete
                     nonneg_update nonneg_delete max_def)
  qed
qed

lemma used_release:
  assumes inv: "ledger_inv s" and u: "sumUsed s = storageUsed s"
    and ok: "op_ok (Release now p b isOff) s"
  shows "sumUsed (releaseAllocation now p b isOff s) = storageUsed (releaseAllocation now p b isOff s)"
proof (cases "map_of (allocations s) p")
  case None
  then show ?thesis using u by (simp add: releaseAllocation_def)
next
  case (Some e)
  have d: "distinct (map fst (allocations s))" and nn: "entries_nonneg (allocations s)"
    using inv by (simp_all add: ledger_inv_def)
  have e: "0 \<le> offered e" "0 \<le> used e" using nonneg_lookup [OF nn Some] by simp_all
  have le: "used e \<le> sumUsed s"
    unfolding sumUsed_def
    using sum_ge_entry [of used "allocations s" p e] nn Some
    by (simp add: entries_nonneg_def list_all_iff case_prod_beta)
  show ?thesis
  proof (cases isOff)
    case True
    show ?thesis
      using True Some d u e
      by (auto simp: releaseAllocation_def Let_def sumUsed_def sum_update sum_delete)
  next
    case False
    then have b: "0 \<le> b" "b \<le> used e"
      using ok Some by (simp_all add: getUsedFromPeer_def)
    show ?thesis
      using False Some d u e le b
      by (auto simp: releaseAllocation_def Let_def sumUsed_def sum_update sum_delete max_def)
  qed
qed


lemma inv_step: "ledger_inv s \<Longrightarrow> op_ok x s \<Longrightarrow> ledger_inv (apply_ledger_op x s)"
  by (cases x) (simp_all add: inv_allocate offered_recordUsed inv_release del: op_ok.simps(3))

lemma used_step:
  "ledger_inv s \<Longrightarrow> sumUsed s = storageUsed s \<Longrightarrow> op_ok x s \<Longrightarrow> \<not> is_allocate x \<Longrightarrow>
   sumUsed (apply_ledger_op x s) = storageUsed (apply_ledger_op x s)"
  by (cases x) (simp_all add: used_recordUsed used_release del: op_ok.simps(3))

lemma inv_run: "ledger_inv s \<Longrightarrow> ops_ok xs s \<Longrightarrow> ledger_inv (run_ledger xs s)"
  by (induction xs arbitrary: s) (simp_all add: inv_step)

lemma used_run:
  "ledger_inv s \<Longrightarrow> sumUsed s = storageUsed s \<Longrightarrow> ops_ok xs s \<Longrightarrow>
   list_all (\<lambda>x. \<not> is_allocate x) xs \<Longrightarrow>
   sumUsed (run_ledger xs s) = storageUsed (run_ledger xs s)"
  by (induction xs arbitrary: s) (simp_all add: inv_step used_step)

lemma validate_iff:
  "fst (validateAllocation s) \<longleftrightarrow>
     sumOffered s = storageOffered s \<and> sumUsed s = storageUsed s
     \<and> storageUsed s \<le> storageOffered s"
  by (auto simp: validateAllocation_def validate_issues_def)

lemma inv_initial: "ledger_inv (setMaxStorage m initial_allocation)"
  by (simp add: ledger_inv_def setMaxStorage_def initial_allocation_def sumOffered_def entries_nonneg_def)

text \<open>
  Claim C5, as amended. From the empty ledger, along any sequence of allocate, record-used
  and release operations with non-negative byte counts whose releases give back no more
  than the ledger records for the peer, the per-peer sum of offered equals the global
  offered total; along sequences without an allocate step the per-peer sum of used equals
  the global used total as well; and \<^verbatim>\<open>validateAllocation\<close> reports no issue exactly when both
  sums reconcile and used \<open>\<le>\<close> offered. The operations do not keep used \<open>\<le>\<close> offered.
\<close>

theorem ledger_reconciles:
  assumes "ops_ok ops (setMaxStorage m initial_allocation)"
  shows "sumOffered (run_ledger ops (setMaxStorage m initial_allocation))
           = storageOffered (run_ledger ops (setMaxStorage m initial_allocation))
       \<and> (list_all (\<lambda>x. \<not> is_allocate x) ops \<longrightarrow>
            sumUsed (run_ledger ops (setMaxStorage m initial_allocation))
              = storageUsed (run_ledger ops (setMaxStorage m initial_allocation)))
       \<and> (fst (validateAllocation (run_ledger ops (setMaxStorage m initial_allocation))) \<longleftrightarrow>
            sumOffered (run_ledger ops (setMaxStorage m initial_allocation))
              = storageOffered (run_ledger ops (setMaxStorage m initial_allocation))
            \<and> sumUsed (run_ledger ops (setMaxStorage m initial_allocation))
              = storageUsed (run_ledger ops (setMaxStorage m initial_allocation))
            \<and> storageUsed (run_ledger ops (setMaxStorage m initial_allocation))
              \<le> storageOffered (run_ledger ops (setMaxStorage m initial_allocation)))"
proof -
  let ?s0 = "setMaxStorage m initial_allocation"
  have i: "ledger_inv (run_ledger ops ?s0)"
    using inv_run [OF inv_initial assms] .
  have u0: "sumUsed ?s0 = storageUsed ?s0"
    by (simp add: setMaxStorage_def initial_allocation_def sumUsed_def)
  have u: "list_all (\<lambda>x. \<not> is_allocate x) ops \<Longrightarrow>
           sumUsed (run_ledger ops ?s0) = storageUsed (run_ledger ops ?s0)"
    using used_run [OF inv_initial u0 assms] .
  show ?thesis using i u validate_iff [of "run_ledger ops ?s0"]
    by (simp add: ledger_inv_def)
qed

theorem ledger_reconciles_witness:
  "ops_ok demo_ops (setMaxStorage 1000 initial_allocation)
   \<and> list_all (\<lambda>x. \<not> is_allocate x) demo_ops
   \<and> sumOffered (run_ledger demo_ops (setMaxStorage 1000 initial_allocation)) = 0
   \<and> sumUsed (run_ledger demo_ops (setMaxStorage 1000 initial_allocation)) = 50
   \<and> storageUsed (run_ledger demo_ops (setMaxStorage 1000 initial_allocation)) = 50
   \<and> \<not> fst (validateAllocation (run_ledger demo_ops (setMaxStorage 1000 initial_allocation)))"
proof -
  have ok: "ops_ok demo_ops (setMaxStorage 1000 initial_allocation)"
    by (simp add: demo_ops_def setMaxStorage_def initial_allocation_def recordStorageUsed_def
          get_or_default_def default_peer_allocation_def getUsedFromPeer_def Let_def)
  have na: "list_all (\<lambda>x. \<not> is_allocate x) demo_ops" by (simp add: demo_ops_def)
  have su: "storageUsed (run_ledger demo_ops (setMaxStorage 1000 initial_allocation)) = 50"
    by (simp add: demo_ops_def setMaxStorage_def initial_allocation_def recordStorageUsed_def
          releaseAllocation_def get_or_default_def default_peer_allocation_def Let_def)
  have so: "storageOffered (run_ledger demo_ops (setMaxStorage 1000 initial_allocation)) = 0"
    by (simp add: demo_ops_def setMaxStorage_def initial_allocation_def recordStorageUsed_def
          releaseAllocation_def get_or_default_def default_peer_allocation_def Let_def)
  show ?thesis
    using ledger_reconciles [OF ok] ok na su so by simp
qed

text \<open>
  The claim as stated fails: one \<^verbatim>\<open>recordStorageUsed\<close> on the empty ledger leaves used above
  offered, and the validation reports it.
\<close>

theorem validate_after_recordStorageUsed_counterexample:
  "\<not> fst (validateAllocation
           (run_ledger [RecordUsed 0 ''peerA'' 100 ''b1''] (setMaxStorage 1000 initial_allocation)))
   \<and> storageUsed (run_ledger [RecordUsed 0 ''peerA'' 100 ''b1''] (setMaxStorage 1000 initial_allocation))
       > storageOffered (run_ledger [RecordUsed 0 ''peerA'' 100 ''b1''] (setMaxStorage 1000 initial_allocation))"
  by (simp add: validateAllocation_def validate_issues_def setMaxStorage_def
        initial_allocation_def recordStorageUsed_def get_or_default_def
        default_peer_allocation_def Let_def sumUsed_def sumOffered_def)

text \<open>
  \<^verbatim>\<open>allocateStorageToPeer\<close> adds the bytes to the peer's \<open>used\<close> entry but not to the global
  used total, so the used sums differ after one allocation on the empty ledger.
\<close>

lemma allocate_breaks_used_sum:
  "validate_issues (allocateStorageToPeer 0 ''peerA'' 100 ''b1'' (setMaxStorage 1000 initial_allocation))
     = [UsedMismatch 100 0]"
  by (simp add: validate_issues_def setMaxStorage_def
        initial_allocation_def allocateStorageToPeer_def get_or_default_def
        default_peer_allocation_def Let_def sumUsed_def sumOffered_def)

section \<open>Reputation scores after recorded events\<close>

lemma getPeerReputation_other: "q \<noteq> p \<Longrightarrow> snd (getPeerReputation now p s) q = s q"
  by (simp add: getPeerReputation_def Let_def split: option.splits)

lemma weighted_score_upd [simp]:
  "weighted_score (r\<lparr>overallScore := x\<rparr>) = weighted_score r"
  "weighted_score (r\<lparr>trustLevel := t\<rparr>) = weighted_score r"
  "weighted_score (r\<lparr>isBlacklisted := b\<rparr>) = weighted_score r"
  "weighted_score (r\<lparr>blacklistReason := w\<rparr>) = weighted_score r"
  by (simp_all add: weighted_score_def connectionScore_def verificationScore_def)

lemma updateOverallScore_upd:
  "updateOverallScore now p (s(p \<mapsto> r)) = s(p \<mapsto> finalize r)"
  by (auto simp: updateOverallScore_def getPeerReputation_def Let_def blacklistPeer_def finalize_def)






lemma record_event_frame: "q \<noteq> event_peer e \<Longrightarrow> record_event e s q = s q"
proof (cases e)
  case (Connection now p rt ok)
  assume "q \<noteq> event_peer e"
  then show ?thesis using Connection getPeerReputation_other [of q p now s]
    by (simp add: recordConnection_def updateOverallScore_upd Let_def split_beta)
next
  case (Verification now p ok rt)
  assume "q \<noteq> event_peer e"
  then show ?thesis using Verification getPeerReputation_other [of q p now s]
    by (simp add: recordVerification_def updateOverallScore_upd Let_def split_beta)
next
  case (FileTransfer now p ok n c)
  assume "q \<noteq> event_peer e"
  then show ?thesis using FileTransfer getPeerReputation_other [of q p now s]
    by (simp add: recordFileTransfer_def updateOverallScore_upd Let_def split_beta)
next
  case (Uptime now p up)
  assume "q \<noteq> event_peer e"
  then show ?thesis using Uptime getPeerReputation_other [of q p now s]
    by (simp add: recordUptime_def updateOverallScore_upd Let_def split_beta)
qed







lemma record_events_frame: "q \<notin> event_peer ` set es \<Longrightarrow> record_events es s q = s q"
  by (induction es arbitrary: s) (simp_all add: record_event_frame)





lemmas rep_eval =
  recordConnection_def recordVerification_def recordFileTransfer_def recordUptime_def
  updateOverallScore_upd finalize_def getPeerReputation_def migrateReputationData_def
  new_raw_reputation_def num_or_def str_or_def str_or_null_def Let_def
  weighted_score_def connectionScore_def verificationScore_def calculateResponseTimeScore_def
  weight_uptime_def weight_responseTime_def weight_verificationSuccess_def
  weight_dataIntegrity_def threshold_blacklisted_def slice_last_def




text \<open>
  The weight named \<^verbatim>\<open>uptime\<close> multiplies the connection success ratio; the rolling uptime score
  is stored but does not enter the overall score: a failed uptime sample after a successful
  connection leaves the overall score at 0.75 with an uptime score of 0.
\<close>

lemma uptime_sample_not_scored:
  "overallScore (the (record_events [Connection 0 ''p'' 0 True, Uptime 1 ''p'' False] Map.empty ''p''))
     = 3 / 4
   \<and> uptimeScore (the (record_events [Connection 0 ''p'' 0 True, Uptime 1 ''p'' False] Map.empty ''p''))
     = 0"
  by (simp add: rep_eval)

text \<open>
  Claim C10. For a peer with no recorded event, the lookup creates a record with overall
  score 0.5 and trust level \<^verbatim>\<open>unknown\<close>, the acceptance check with the default threshold (0.6)
  answers that the reputation is too low, and a lookup of any peer in any table leaves every
  record already in the table as it was.
\<close>

theorem never_seen_peer:
  assumes "p \<notin> event_peer ` set evs"
  shows "overallScore (fst (getPeerReputation now p (record_events evs Map.empty))) = 1 / 2
       \<and> trustLevel (fst (getPeerReputation now p (record_events evs Map.empty))) = ''unknown''
       \<and> snd (getPeerReputation now p (record_events evs Map.empty)) p
           = Some (fst (getPeerReputation now p (record_events evs Map.empty)))
       \<and> fst (isPeerAcceptable now p None (record_events evs Map.empty))
           = ReputationTooLow (1 / 2) (6 / 10)
       \<and> (\<forall>s q q' r. s q' = Some r \<longrightarrow> snd (getPeerReputation now q s) q' = Some r)"
proof -
  have n: "record_events evs Map.empty p = None"
    using record_events_frame [OF assms, of Map.empty] by simp
  have "\<forall>s q q' r. s q' = Some r \<longrightarrow> snd (getPeerReputation now q s) q' = Some r"
    by (auto simp: getPeerReputation_def Let_def split: option.splits)
  then show ?thesis using n
    by (simp add: getPeerReputation_def isPeerAcceptable_def migrateReputationData_def
          new_raw_reputation_def num_or_def str_or_def Let_def threshold_acceptable_def)
qed

theorem never_seen_peer_witness:
  "''b'' \<notin> event_peer ` set [Connection 0 ''a'' 0 True]
   \<and> fst (isPeerAcceptable 5 ''b'' None (record_events [Connection 0 ''a'' 0 True] Map.empty))
       = ReputationTooLow (1 / 2) (6 / 10)
   \<and> overallScore (fst (getPeerReputation 5 ''b'' (record_events [Connection 0 ''a'' 0 True] Map.empty))) = 1 / 2"
proof -
  have m: "''b'' \<notin> event_peer ` set [Connection 0 ''a'' 0 True]" by simp
  from never_seen_peer [OF m, of 5] m show ?thesis by simp
qed

section \<open>Encryption round trip\<close>

lemma test_contract: "secret_box_contract test_primitives"
  by (simp add: secret_box_contract_def test_primitives_def crypto_box_MACBYTES_def)

text \<open>
  Claim C9. For every byte sequence and every peer with a derived shared secret, \<^verbatim>\<open>encrypt\<close>
  succeeds with the drawn nonce in front of the ciphertext, and \<^verbatim>\<open>decrypt\<close> of that result
  for the same peer gives the byte sequence back, provided the secret box of the library
  opens what it sealed.
\<close>

theorem decrypt_encrypt:
  assumes "secret_box_contract prim" and "secrets peer = Some k"
  shows "\<exists>c. encrypt prim rand secrets p peer = Inr c
           \<and> take crypto_box_NONCEBYTES c = map rand [0..<crypto_box_NONCEBYTES]
           \<and> decrypt prim secrets c peer = Inr p"
proof -
  let ?n = "map rand [0..<crypto_box_NONCEBYTES]"
  let ?ct = "crypto_box_easy_afternm prim p ?n k"
  have n: "length ?n = crypto_box_NONCEBYTES" by simp
  have len: "length ?ct = length p + crypto_box_MACBYTES"
    and opn: "crypto_box_open_easy_afternm prim ?ct ?n k = Some p"
    using assms(1) n unfolding secret_box_contract_def by blast+
  have e: "encrypt prim rand secrets p peer = Inr (?n @ ?ct)"
    using assms(2) by (simp add: encrypt_def Let_def)
  have d: "decrypt prim secrets (?n @ ?ct) peer = Inr p"
    using assms(2) len opn n by (simp add: decrypt_def Let_def)
  show ?thesis using e d n by simp
qed

theorem decrypt_encrypt_witness:
  "secret_box_contract test_primitives
   \<and> [''peerB'' \<mapsto> [7 :: byte]] ''peerB'' = Some [7]
   \<and> (\<exists>c. encrypt test_primitives (\<lambda>i. of_nat i) [''peerB'' \<mapsto> [7]] [1, 2, 3] ''peerB'' = Inr c
          \<and> decrypt test_primitives [''peerB'' \<mapsto> [7]] c ''peerB'' = Inr [1, 2, 3])"
proof -
  have k: "[''peerB'' \<mapsto> [7 :: byte]] ''peerB'' = Some [7]" by simp
  from decrypt_encrypt [where prim = test_primitives and secrets = "[''peerB'' \<mapsto> [7]]"
      and peer = "''peerB''" and k = "[7]" and rand = "\<lambda>i. of_nat i" and p = "[1, 2, 3]", OF test_contract k]
    test_contract k
  show ?thesis by blast
qed

section \<open>Commitment verification\<close>

text \<open>
  On commitments whose bytes offered and expiry are numbers, \<^verbatim>\<open>verifyCommitment\<close> accepts
  exactly when the signature object verifies over the signed subset, the key of the
  signature object equals the commitment's public key, the expiry is not in the past and
  the bytes offered lie between 1 MiB and 1 TiB.
\<close>

lemma verifyCommitment_numeric:
  assumes "c_storageOffered c = JS_number x" and "c_expiresAt c = JS_number e"
  shows "verifyCommitment prim now c = Valid \<longleftrightarrow>
           (\<exists>sg. c_signature c = Some sg
              \<and> length (from_hex (sig_publicKey sg)) = 32
              \<and> length (from_hex (sig_signature sg)) = 64
              \<and> crypto_sign_verify_detached prim (from_hex (sig_signature sg))
                   (stringify_commitment prim (c_peerId c) (c_storageOffered c) (c_timestamp c)
                      (c_expiresAt c)) (from_hex (sig_publicKey sg)) = Some True
              \<and> sig_publicKey sg = c_publicKey c)
           \<and> real_of_int now \<le> e
           \<and> 1048576 \<le> x \<and> x \<le> 1099511627776"
  using assms
  by (auto simp: verifyCommitment_def commitmentData_def Let_def to_number_def js_less_def
        crypto_sign_PUBLICKEYBYTES_def crypto_sign_BYTES_def split: option.splits)

text \<open>
  Claim C7 fails on the code. The expiry test and the two size tests of \<^verbatim>\<open>verifyCommitment\<close>
  reject on a comparison that is false when the member is absent, so a commitment whose
  signature verifies and whose keys match is accepted without \<^verbatim>\<open>storageOffered\<close>, and
  without \<^verbatim>\<open>expiresAt\<close>, at any clock reading.
\<close>

theorem verifyCommitment_accepts_missing_members:
  assumes "c_signature c = Some sg"
    and "length (from_hex (sig_publicKey sg)) = 32"
    and "length (from_hex (sig_signature sg)) = 64"
    and "crypto_sign_verify_detached prim (from_hex (sig_signature sg))
           (stringify_commitment prim (c_peerId c) (c_storageOffered c) (c_timestamp c)
                      (c_expiresAt c)) (from_hex (sig_publicKey sg)) = Some True"
    and "sig_publicKey sg = c_publicKey c"
  shows "(c_storageOffered c = JS_undefined \<and> c_expiresAt c = JS_number e \<and> real_of_int now \<le> e
            \<longrightarrow> verifyCommitment prim now c = Valid)
       \<and> (c_storageOffered c = JS_undefined \<and> c_expiresAt c = JS_undefined
            \<longrightarrow> verifyCommitment prim now c = Valid)
       \<and> (c_storageOffered c = JS_number x \<and> 1048576 \<le> x \<and> x \<le> 1099511627776
            \<and> c_expiresAt c = JS_undefined
            \<longrightarrow> verifyCommitment prim now c = Valid)"
  using assms
  by (auto simp: verifyCommitment_def commitmentData_def Let_def to_number_def js_less_def
        crypto_sign_PUBLICKEYBYTES_def crypto_sign_BYTES_def)

lemma test_commitment_fields:
  "c_signature (test_commitment v w)
     = Some \<lparr>sig_signature = test_sig_hex, sig_publicKey = test_key_hex, sig_algorithm = ''Ed25519''\<rparr>"
  "c_publicKey (test_commitment v w) = test_key_hex"
  "c_storageOffered (test_commitment v w) = v"
  "c_expiresAt (test_commitment v w) = w"
  by (simp_all add: test_commitment_def)

lemma test_key_length: "length (from_hex test_key_hex) = 32"
  by code_simp

lemma test_sig_length: "length (from_hex test_sig_hex) = 64"
  by code_simp

lemma test_commitment_verifies:
  "crypto_sign_verify_detached test_primitives (from_hex test_sig_hex)
     (stringify_commitment test_primitives (c_peerId (test_commitment v w))
        (c_storageOffered (test_commitment v w)) (c_timestamp (test_commitment v w))
        (c_expiresAt (test_commitment v w)))
     (from_hex test_key_hex) = Some True"
  by code_simp

theorem verifyCommitment_accepts_missing_members_witness:
  "verifyCommitment test_primitives 5000 (test_commitment JS_undefined (JS_number 31536001000)) = Valid
   \<and> verifyCommitment test_primitives 5000 (test_commitment JS_undefined JS_undefined) = Valid"
  using verifyCommitment_accepts_missing_members
          [where prim = test_primitives and c = "test_commitment JS_undefined (JS_number 31536001000)"
             and e = 31536001000 and now = 5000,
           OF test_commitment_fields(1) _ _ _ _]
        verifyCommitment_accepts_missing_members
          [where prim = test_primitives and c = "test_commitment JS_undefined JS_undefined"
             and now = 5000,
           OF test_commitment_fields(1) _ _ _ _]
        test_key_length test_sig_length test_commitment_verifies
  by (simp add: test_commitment_fields)

text \<open>
  On numbers the bounds are as specified: with the other checks passed, an offer of exactly
  1 MiB or exactly 1 TiB is accepted, and an offer of 1 MiB - 1 or of 1 TiB + 1 is rejected.
\<close>

lemma verifyCommitment_boundaries:
  "verifyCommitment test_primitives 5000 (test_commitment (JS_number MiB) (JS_number 31536001000)) = Valid
   \<and> verifyCommitment test_primitives 5000 (test_commitment (JS_number (MiB - 1)) (JS_number 31536001000))
       = Invalid ''Storage offering too small''
   \<and> verifyCommitment test_primitives 5000 (test_commitment (JS_number TiB) (JS_number 31536001000)) = Valid
   \<and> verifyCommitment test_primitives 5000 (test_commitment (JS_number (TiB + 1)) (JS_number 31536001000))
       = Invalid ''Storage offering suspiciously large''"
  using test_key_length test_sig_length test_commitment_verifies
  by (simp add: verifyCommitment_def commitmentData_def Let_def to_number_def js_less_def
        test_commitment_fields
        crypto_sign_PUBLICKEYBYTES_def crypto_sign_BYTES_def MiB_def TiB_def)

section \<open>Peer identity verification\<close>

text \<open>
  What \<^verbatim>\<open>verifyPeerIdHash\<close> checks: it answers valid exactly when the version is \<^verbatim>\<open>1.0\<close>, the
  timestamp, if it converts to a number, is at most one hour before the verification
  time, the signature check answers true for the decoded signature, hash and key, and the
  bundled hash is the first 16 hexadecimal characters of the SHA-256 of the bundled key.
  So the hash of every accepted identity is the one \<^verbatim>\<open>generatePeerIdHash\<close> derives from the
  bundled key.
\<close>

lemma verifyPeerIdHash_valid_iff:
  "id_valid (verifyPeerIdHash prim now sh) \<longleftrightarrow>
      sh_version sh = ''1.0''
      \<and> (\<forall>t. to_number prim (sh_timestamp sh) = Some t \<longrightarrow> real_of_int now - t \<le> 3600000)
      \<and> crypto_sign_verify_detached prim (from_hex (sh_signature sh))
           (from_hex (sh_peerIdHash sh)) (from_hex (sh_publicKey sh)) = Some True
      \<and> sh_peerIdHash sh = take 16 (to_hex (sha256 prim (from_hex (sh_publicKey sh))))"
  by (auto simp: verifyPeerIdHash_def id_rejected_def Let_def js_less_def js_minus_def
           split: option.splits)

lemma verifyPeerIdHash_valid_hash:
  "id_valid (verifyPeerIdHash prim now sh) \<Longrightarrow>
     sh_peerIdHash sh = generatePeerIdHash prim (from_hex (sh_publicKey sh))"
  by (simp add: verifyPeerIdHash_valid_iff generatePeerIdHash_def)

text \<open>
  Claim C8 fails on the code. The timestamp is not covered by the signature, and the age
  test is false when the timestamp is absent, so an identity whose signature and hash check
  out is accepted without timestamp at every clock reading, however old it is. On a
  numeric timestamp the age test is as specified.
\<close>

theorem verifyPeerIdHash_accepts_missing_timestamp:
  assumes "sh_version sh = ''1.0''"
    and "crypto_sign_verify_detached prim (from_hex (sh_signature sh))
           (from_hex (sh_peerIdHash sh)) (from_hex (sh_publicKey sh)) = Some True"
    and "sh_peerIdHash sh = take 16 (to_hex (sha256 prim (from_hex (sh_publicKey sh))))"
  shows "(sh_timestamp sh = JS_undefined \<longrightarrow> id_valid (verifyPeerIdHash prim now sh))
       \<and> (sh_timestamp sh = JS_number t \<longrightarrow>
            (id_valid (verifyPeerIdHash prim now sh) \<longleftrightarrow> real_of_int now - t \<le> 3600000))"
  using assms
  by (auto simp: verifyPeerIdHash_def id_rejected_def Let_def js_less_def js_minus_def
        to_number_def)

lemma test_signed_hash_fields:
  "sh_version (test_signed_hash v) = ''1.0''"
  "sh_timestamp (test_signed_hash v) = v"
  by (simp_all add: test_signed_hash_def)

lemma test_signed_hash_verifies:
  "crypto_sign_verify_detached test_primitives (from_hex (sh_signature (test_signed_hash v)))
     (from_hex (sh_peerIdHash (test_signed_hash v))) (from_hex (sh_publicKey (test_signed_hash v)))
     = Some True"
  by code_simp

lemma test_signed_hash_hash:
  "sh_peerIdHash (test_signed_hash v)
     = take 16 (to_hex (sha256 test_primitives (from_hex (sh_publicKey (test_signed_hash v)))))"
  by code_simp

theorem verifyPeerIdHash_accepts_missing_timestamp_witness:
  "id_valid (verifyPeerIdHash test_primitives 1000000000000 (test_signed_hash JS_undefined))
   \<and> id_valid (verifyPeerIdHash test_primitives 5000 (test_signed_hash (JS_number 1000)))
   \<and> \<not> id_valid (verifyPeerIdHash test_primitives 1000000000000 (test_signed_hash (JS_number 1000)))"
  using verifyPeerIdHash_accepts_missing_timestamp
          [OF test_signed_hash_fields(1) test_signed_hash_verifies test_signed_hash_hash,
           of JS_undefined 1000000000000 0]
        verifyPeerIdHash_accepts_missing_timestamp
          [OF test_signed_hash_fields(1) test_signed_hash_verifies test_signed_hash_hash,
           of "JS_number 1000" 5000 1000]
        verifyPeerIdHash_accepts_missing_timestamp
          [OF test_signed_hash_fields(1) test_signed_hash_verifies test_signed_hash_hash,
           of "JS_number 1000" 1000000000000 1000]
  by (simp add: test_signed_hash_fields)

section \<open>Proof verification\<close>

text \<open>
  Claim C2, as amended. \<^verbatim>\<open>verifyProof\<close> accepts a proof exactly when the proof carries no
  error and, for a random-blocks (file-hash) challenge, returns as many blocks (files) as
  indices were challenged, or, for a metadata challenge, carries a non-empty hash and echoes
  the nonce of the challenge. Neither the returned indices and hashes nor the returned
  metadata hash are compared with anything computed from local metadata.
\<close>

theorem verifyProof_accepts_shape:
  "verifyProof ch (Some pr) = Some True \<longleftrightarrow>
     \<not> truthy (pr_error pr)
     \<and> (ch_type ch = ''random_blocks''
          \<and> (\<exists>bs idx. blocks pr = Some bs \<and> blockIndices ch = Some idx
                \<and> length bs = length idx)
        \<or> ch_type ch = ''file_hash''
          \<and> (\<exists>fs idx. files pr = Some fs \<and> fileIndices ch = Some idx
                \<and> length fs = length idx)
        \<or> ch_type ch = ''metadata_proof''
          \<and> truthy (metadataHash pr) \<and> pr_nonce pr = ch_nonce ch)"
  by (auto simp: verifyProof_def split: option.splits)

theorem verifyProof_accepts_shape_witness:
  "verifyProof (test_challenge ''random_blocks'') (Some forged_block_proof) = Some True
   \<and> \<not> truthy (pr_error forged_block_proof)
   \<and> blocks forged_block_proof = Some [\<lparr>bp_index = 7, bp_hash = ''ff'', bp_size = 0\<rparr>]
   \<and> blockIndices (test_challenge ''random_blocks'') = Some [0]
   \<and> verifyProof (test_challenge ''file_hash'') (Some forged_block_proof) \<noteq> Some True"
  using verifyProof_accepts_shape [of "test_challenge ''random_blocks''" forged_block_proof]
        verifyProof_accepts_shape [of "test_challenge ''file_hash''" forged_block_proof]
  by (simp add: test_challenge_def forged_block_proof_def truthy_def)

text \<open>
  The claim as stated fails: a block proof for an index that was not asked, with a hash
  that is not the local one, is accepted, and so is a metadata proof whose hash is not
  the recomputed one.
\<close>

theorem verifyProof_counterexample:
  "verifyProof (test_challenge ''random_blocks'') (Some forged_block_proof) = Some True
   \<and> \<not> proof_matches_local test_primitives test_stringify_metadata test_backup
         (test_challenge ''random_blocks'') forged_block_proof
   \<and> verifyProof (test_challenge ''metadata_proof'') (Some forged_metadata_proof) = Some True
   \<and> \<not> proof_matches_local test_primitives test_stringify_metadata test_backup
         (test_challenge ''metadata_proof'') forged_metadata_proof"
  by code_simp

section \<open>Chunk acknowledgment\<close>

lemma new_messages_send:
  "new_messages ft (send m (ft\<lparr>receivedChunks := rcs, activeTransfers := ats\<rparr>))
     = (if connected ft then [m] else [])"
  "new_messages ft (send m (ft\<lparr>receivedChunks := rcs\<rparr>)) = (if connected ft then [m] else [])"
  "new_messages ft (send m ft) = (if connected ft then [m] else [])"
  by (simp_all add: new_messages_def send_def)

text \<open>
  Claim C3. Handling a \<^verbatim>\<open>file_chunk\<close> message sends at most one acknowledgment. It has status
  \<^verbatim>\<open>received\<close> only if the chunk decrypts under the sender's shared secret and the SHA-256 of
  the decrypted chunk equals the claimed chunk hash. When decryption or the hash check
  fails, the handler does exactly one thing: it sends the error acknowledgment (if the
  connection is up); the stored chunks and transfers stay as they were.
\<close>

theorem handleFileChunk_ack:
  "(\<forall>m \<in> set (new_messages ft (handleFileChunk prim msg peer ft)).
       is_received_ack m \<longrightarrow>
         (\<exists>d. decrypt prim (sharedSecrets ft) (from_base64 prim (fc_encryptedData msg)) peer = Inr d
              \<and> hashData prim d = fc_chunkHash msg))
   \<and> length (new_messages ft (handleFileChunk prim msg peer ft)) \<le> 1
   \<and> (\<forall>e. chunk_failure prim msg peer ft = Some e \<longrightarrow>
         handleFileChunk prim msg peer ft
           = send (ChunkAck (fc_transferId msg) (fc_chunkIndex msg) ''error'' (Some e)) ft
         \<and> (connected ft \<longrightarrow>
               new_messages ft (handleFileChunk prim msg peer ft)
                 = [ChunkAck (fc_transferId msg) (fc_chunkIndex msg) ''error'' (Some e)])
         \<and> receivedChunks (handleFileChunk prim msg peer ft) = receivedChunks ft
         \<and> activeTransfers (handleFileChunk prim msg peer ft) = activeTransfers ft
         \<and> \<not> list_ex is_received_ack (new_messages ft (handleFileChunk prim msg peer ft)))"
proof -
  let ?dec = "decrypt prim (sharedSecrets ft) (from_base64 prim (fc_encryptedData msg)) peer"
  show ?thesis
  proof (cases ?dec)
    case (Inl e)
    then show ?thesis
      by (simp add: handleFileChunk_def chunk_failure_def Let_def new_messages_send)
         (simp add: send_def)
  next
    case (Inr d)
    show ?thesis
    proof (cases "hashData prim d = fc_chunkHash msg")
      case True
      with Inr show ?thesis
        by (auto simp: handleFileChunk_def chunk_failure_def Let_def new_messages_send
                 split: option.splits)
    next
      case False
      with Inr show ?thesis
        by (simp add: handleFileChunk_def chunk_failure_def Let_def new_messages_send)
           (simp add: send_def)
    qed
  qed
qed

lemma test_chunk_received:
  "new_messages test_receiver (handleFileChunk test_primitives (test_chunk test_chunk_hash) ''peerB'' test_receiver)
     = [ChunkAck ''t1'' 0 ''received'' None]"
  by code_simp

lemma test_chunk_failure:
  "chunk_failure test_primitives (test_chunk ''00'') ''peerB'' test_receiver
     = Some (ChunkIntegrityFailed 0)"
  by code_simp

theorem handleFileChunk_ack_witness:
  "new_messages test_receiver
      (handleFileChunk test_primitives (test_chunk test_chunk_hash) ''peerB'' test_receiver)
     = [ChunkAck ''t1'' 0 ''received'' None]
   \<and> (\<exists>d. decrypt test_primitives (sharedSecrets test_receiver)
             (from_base64 test_primitives (fc_encryptedData (test_chunk test_chunk_hash))) ''peerB''
             = Inr d
          \<and> hashData test_primitives d = fc_chunkHash (test_chunk test_chunk_hash))
   \<and> chunk_failure test_primitives (test_chunk ''00'') ''peerB'' test_receiver
       = Some (ChunkIntegrityFailed 0)
   \<and> handleFileChunk test_primitives (test_chunk ''00'') ''peerB'' test_receiver
       = send (ChunkAck ''t1'' 0 ''error'' (Some (ChunkIntegrityFailed 0))) test_receiver
   \<and> receivedChunks (handleFileChunk test_primitives (test_chunk ''00'') ''peerB'' test_receiver)
       = receivedChunks test_receiver"
proof -
  have f: "fc_transferId (test_chunk h) = ''t1'' \<and> fc_chunkIndex (test_chunk h) = 0" for h
    by (simp add: test_chunk_def)
  have a: "\<exists>d. decrypt test_primitives (sharedSecrets test_receiver)
             (from_base64 test_primitives (fc_encryptedData (test_chunk test_chunk_hash))) ''peerB''
             = Inr d
          \<and> hashData test_primitives d = fc_chunkHash (test_chunk test_chunk_hash)"
    using handleFileChunk_ack [of test_receiver test_primitives "test_chunk test_chunk_hash" "''peerB''"]
          test_chunk_received
    by simp
  have b: "handleFileChunk test_primitives (test_chunk ''00'') ''peerB'' test_receiver
       = send (ChunkAck ''t1'' 0 ''error'' (Some (ChunkIntegrityFailed 0))) test_receiver
     \<and> receivedChunks (handleFileChunk test_primitives (test_chunk ''00'') ''peerB'' test_receiver)
       = receivedChunks test_receiver"
    using handleFileChunk_ack [of test_receiver test_primitives "test_chunk ''00''" "''peerB''"]
          test_chunk_failure f [of "''00''"]
    by (simp add: send_def)
  show ?thesis using a b test_chunk_received test_chunk_failure by blast
qed

section \<open>Banned peers in the dispatch path\<close>

lemma timers_same: "timers rl = ts \<Longrightarrow> rl\<lparr>timers := ts\<rparr> = rl"
  by auto

lemma recent_replicate: "0 - (0::int) < w \<Longrightarrow> recent 0 w (replicate n 0) = replicate n 0"
  by (simp add: recent_def)

lemma quiet_initial: "quiet 0 (connection_to ''peerA'')"
  by (simp add: quiet_def connection_to_def new_RateLimiter_def num_or_def history_def
        limits_of_connection_def)

lemma quiet_step:
  assumes "quiet n conn" "n < 20"
  shows "fst (deliver 0 ''pong'' conn) = HandledPong \<and> quiet (Suc n) (snd (deliver 0 ''pong'' conn))"
proof -
  let ?rl = "rateLimiter conn"
  have f: "fire_timers 0 (timers ?rl) ?rl = ?rl"
    using assms(1) by (simp add: quiet_def timers_same)
  have b: "checkBurstLimit ?rl ''peerA'' 0" and w: "checkWindowLimit ?rl ''peerA'' 0"
    using assms
    by (simp_all add: quiet_def limits_of_connection_def checkBurstLimit_def
          checkWindowLimit_def recent_replicate)
  have a: "isAllowed ?rl ''peerA'' ''pong'' 0 = (True, recordRequest ?rl ''peerA'' 0)"
    using b w by (simp add: isAllowed_def checkMessageTypeLimit_def messageLimits_def)
  have d: "deliver 0 ''pong'' conn = (HandledPong, conn\<lparr>rateLimiter := recordRequest ?rl ''peerA'' 0\<rparr>)"
  proof -
    have "deliver 0 ''pong'' conn = on_data 0 ''pong'' conn" by (simp add: deliver_def f)
    then show ?thesis using assms(1) a by (simp add: on_data_def str_or_def quiet_def)
  qed
  show ?thesis
    using assms(1)
    by (simp add: d quiet_def recordRequest_def history_def limits_of_connection_def
          replicate_append_same)
qed

lemma quiet_run:
  "quiet k conn \<Longrightarrow> k + n \<le> 20 \<Longrightarrow> quiet (k + n) (deliver_all (replicate n (0, ''pong'')) conn)"
proof (induction n arbitrary: k conn)
  case 0
  then show ?case by simp
next
  case (Suc n)
  then have "quiet (Suc k) (snd (deliver 0 ''pong'' conn))"
    using quiet_step [of k conn] by simp
  then have "quiet (Suc k + n) (deliver_all (replicate n (0, ''pong'')) (snd (deliver 0 ''pong'' conn)))"
    using Suc.IH [of "Suc k"] Suc.prems by simp
  then show ?case by simp
qed

lemma quiet_full_banned:
  assumes "quiet 20 conn"
  shows "fst (deliver 0 ''pong'' conn) = Dropped \<and> banned_until 300000 (snd (deliver 0 ''pong'' conn))"
proof -
  let ?rl = "rateLimiter conn"
  let ?rl1 = "emit (RateLimited ''peerA'' ''burst_limit'' ''pong'') ?rl"
  have f: "fire_timers 0 (timers ?rl) ?rl = ?rl"
    using assms by (simp add: quiet_def timers_same)
  have b: "\<not> checkBurstLimit ?rl ''peerA'' 0"
    using assms
    by (simp add: quiet_def limits_of_connection_def checkBurstLimit_def recent_replicate)
  have a: "isAllowed ?rl ''peerA'' ''pong'' 0 = (False, ?rl1)"
    using b by (simp add: isAllowed_def)
  have u: "burstUtilization (getStats ?rl1 ''peerA'' 0) = 100"
    using assms
    by (simp add: getStats_def emit_def quiet_def limits_of_connection_def recent_replicate Let_def)
  have d: "deliver 0 ''pong'' conn = (Dropped, conn\<lparr>rateLimiter := banPeer ?rl1 ''peerA'' 300000 0\<rparr>)"
  proof -
    have "deliver 0 ''pong'' conn = on_data 0 ''pong'' conn" by (simp add: deliver_def f)
    then show ?thesis using assms a u by (simp add: on_data_def str_or_def quiet_def Let_def)
  qed
  show ?thesis
    using assms
    by (simp add: d quiet_def banned_until_def banPeer_def emit_def Let_def
          limits_of_connection_def)
qed

lemma banned_still_handled:
  assumes "banned_until 300000 conn"
  shows "fst (isBanned (rateLimiter conn) ''peerA'' 2000) \<and> fst (deliver 2000 ''pong'' conn) = HandledPong"
proof -
  let ?rl = "rateLimiter conn"
  have f: "fire_timers 2000 (timers ?rl) ?rl = ?rl"
    using assms by (simp add: banned_until_def timers_same)
  have r: "recent 2000 1000 (replicate 20 0) = []" "length (recent 2000 60000 (replicate 20 0)) = 20"
    by (simp_all add: recent_def)
  have b: "checkBurstLimit ?rl ''peerA'' 2000" and w: "checkWindowLimit ?rl ''peerA'' 2000"
    using assms r
    by (simp_all add: banned_until_def limits_of_connection_def checkBurstLimit_def
          checkWindowLimit_def)
  have a: "isAllowed ?rl ''peerA'' ''pong'' 2000 = (True, recordRequest ?rl ''peerA'' 2000)"
    using b w by (simp add: isAllowed_def checkMessageTypeLimit_def messageLimits_def)
  have d: "fst (deliver 2000 ''pong'' conn) = HandledPong"
  proof -
    have "deliver 2000 ''pong'' conn = on_data 2000 ''pong'' conn" by (simp add: deliver_def f)
    then show ?thesis using assms a by (simp add: on_data_def str_or_def banned_until_def)
  qed
  have i: "fst (isBanned ?rl ''peerA'' 2000)"
    using assms by (auto simp: isBanned_def banned_until_def)
  show ?thesis using d i by simp
qed

lemma flooded_banned:
  "fst (deliver 0 ''pong'' (deliver_all (replicate 20 (0, ''pong'')) (connection_to ''peerA''))) = Dropped
   \<and> banned_until 300000 flooded"
proof -
  have q: "quiet 20 (deliver_all (replicate 20 (0, ''pong'')) (connection_to ''peerA''))"
    using quiet_run [OF quiet_initial, of 20] by simp
  have "replicate (20 + 1) (0::int, ''pong'') = replicate 20 (0, ''pong'') @ [(0, ''pong'')]"
    by (simp only: replicate_add) simp
  then have "replicate 21 (0::int, ''pong'') = replicate 20 (0, ''pong'') @ [(0, ''pong'')]"
    by simp
  moreover have "deliver_all (xs @ [(t, m)]) c = snd (deliver t m (deliver_all xs c))" for xs t m c
    by (induction xs arbitrary: c) auto
  ultimately have "flooded = snd (deliver 0 ''pong'' (deliver_all (replicate 20 (0, ''pong'')) (connection_to ''peerA'')))"
    by (simp add: flooded_def)
  then show ?thesis using quiet_full_banned [OF q] by simp
qed

text \<open>
  Claim C6 fails on the code. The handler of inbound data consults \<^verbatim>\<open>isAllowed\<close> only; nothing
  calls \<^verbatim>\<open>isBanned\<close>. Twenty messages of peerA at clock 0 are handled, the twenty-first is
  dropped and bans the peer until clock 300000; at clock 2000 the peer is still banned and
  its next message is handled.
\<close>

theorem banned_peer_message_handled:
  "fst (deliver 0 ''pong'' (deliver_all (replicate 20 (0, ''pong'')) (connection_to ''peerA''))) = Dropped
   \<and> fst (isBanned (rateLimiter flooded) ''peerA'' 2000)
   \<and> fst (deliver 2000 ''pong'' flooded) = HandledPong"
  using flooded_banned banned_still_handled [of flooded] by simp

end
